theory Spec2Isabelle
  imports Complex_Main "HOL-Library.Multiset" "HOL-Library.Log_Nat" "HOL-Library.Sublist"
begin

section \<open>JavaScript values used by the pages\<close>

text \<open>
  A JavaScript Number is modelled by its value, a rational. The finite doubles are the
  fixed points of \<open>toDouble\<close>, which rounds a rational to the nearest double, a tie
  going to the even significand, subnormal doubles included. Every arithmetic operation of
  the pages is the exact operation followed by \<open>toDouble\<close>. The largest finite double
  is not modelled: a result beyond it, which the engine makes \<open>Infinity\<close>, is rounded
  like any other, and the theorems that rest on arithmetic bound their inputs far below it.
  A Number that may be \<open>NaN\<close> is a \<open>number option\<close>, with \<open>None\<close> for
  \<open>NaN\<close>; every comparison with \<open>NaN\<close> is false.
\<close>

type_synonym number = rat

text \<open>The exponent of a positive rational: \<open>2 powi expo q \<le> q < 2 powi (expo q + 1)\<close>.\<close>

definition expo :: "rat \<Rightarrow> int" where
  "expo q = (if q \<ge> 1 then bitlen \<lfloor>q\<rfloor> - 1 else - bitlen (\<lceil>1 / q\<rceil> - 1))"

text \<open>The exponent of the binade of a double format value, and the step of that binade.\<close>

definition bexp :: "rat \<Rightarrow> int" where
  "bexp q = max (expo \<bar>q\<bar>) (- 1022)"

definition ulp :: "rat \<Rightarrow> rat" where
  "ulp q = 2 powi (bexp q - 52)"

definition roundHalfEven :: "rat \<Rightarrow> int" where
  "roundHalfEven r =
     (if r - of_int \<lfloor>r\<rfloor> < 1 / 2 then \<lfloor>r\<rfloor>
      else if r - of_int \<lfloor>r\<rfloor> > 1 / 2 then \<lfloor>r\<rfloor> + 1
      else if even \<lfloor>r\<rfloor> then \<lfloor>r\<rfloor> else \<lfloor>r\<rfloor> + 1)"

definition toDouble :: "rat \<Rightarrow> number" where
  "toDouble q = (if q = 0 then 0 else of_int (roundHalfEven (q / ulp q)) * ulp q)"

text \<open>
  \<open>Math.round\<close>: the nearest integer, a tie going towards plus infinity. The result
  is exact for every double.
\<close>

definition Math_round :: "number \<Rightarrow> int" where
  "Math_round v = \<lfloor>v + 1 / 2\<rfloor>"

text \<open>\<open>String.prototype.split\<close> with a one-character separator.\<close>

fun js_split :: "char \<Rightarrow> string \<Rightarrow> string list" where
  "js_split sep [] = [[]]"
| "js_split sep (c # cs) =
     (if c = sep then [] # js_split sep cs
      else (case js_split sep cs of
              [] \<Rightarrow> [[c]]
            | w # ws \<Rightarrow> (c # w) # ws))"

text \<open>\<open>Array.prototype.join\<close> on an array of strings.\<close>

fun js_join :: "string \<Rightarrow> string list \<Rightarrow> string" where
  "js_join sep [] = []"
| "js_join sep [a] = a"
| "js_join sep (a # b # bs) = a @ sep @ js_join sep (b # bs)"

text \<open>Indexing an array: out of range gives \<open>undefined\<close>, here \<open>None\<close>.\<close>

fun index_opt :: "'a list \<Rightarrow> nat \<Rightarrow> 'a option" where
  "index_opt [] i = None"
| "index_opt (v # vs) 0 = Some v"
| "index_opt (v # vs) (Suc i) = index_opt vs i"

text \<open>
  Strings are the UTF-8 bytes of the text. \<open>parseInt\<close> without a radix argument:
  leading white space is skipped (the white space and line terminator characters of the
  language, of one, two or three bytes), a sign is read, a prefix \<open>0x\<close> or \<open>0X\<close>
  selects radix 16, and the longest prefix of digits is the value, rounded to a double;
  there being no digit, the result is \<open>NaN\<close>. \<open>parseInt(undefined)\<close> is \<open>NaN\<close>.
\<close>

definition isWhiteSpace :: "char \<Rightarrow> bool" where
  "isWhiteSpace c = (c \<in> set [CHR '' '', CHR 0x09, CHR 0x0A, CHR 0x0B, CHR 0x0C, CHR 0x0D])"

text \<open>U+00A0, as two bytes.\<close>

definition isWhiteSpace2 :: "char \<Rightarrow> char \<Rightarrow> bool" where
  "isWhiteSpace2 a b = (a = CHR 0xC2 \<and> b = CHR 0xA0)"

text \<open>
  U+1680, U+2000 to U+200A, U+2028, U+2029, U+202F, U+205F, U+3000 and U+FEFF, as three
  bytes.
\<close>

definition isWhiteSpace3 :: "char \<Rightarrow> char \<Rightarrow> char \<Rightarrow> bool" where
  "isWhiteSpace3 a b c =
     ((a = CHR 0xE1 \<and> b = CHR 0x9A \<and> c = CHR 0x80) \<or>
      (a = CHR 0xE2 \<and> b = CHR 0x80 \<and>
         ((128 \<le> (of_char c :: nat) \<and> (of_char c :: nat) \<le> 138) \<or>
          c = CHR 0xA8 \<or> c = CHR 0xA9 \<or> c = CHR 0xAF)) \<or>
      (a = CHR 0xE2 \<and> b = CHR 0x81 \<and> c = CHR 0x9F) \<or>
      (a = CHR 0xE3 \<and> b = CHR 0x80 \<and> c = CHR 0x80) \<or>
      (a = CHR 0xEF \<and> b = CHR 0xBB \<and> c = CHR 0xBF))"

fun skipWhiteSpace :: "string \<Rightarrow> string" where
  "skipWhiteSpace (a # b # c # cs) =
     (if isWhiteSpace a then skipWhiteSpace (b # c # cs)
      else if isWhiteSpace2 a b then skipWhiteSpace (c # cs)
      else if isWhiteSpace3 a b c then skipWhiteSpace cs
      else a # b # c # cs)"
| "skipWhiteSpace [a, b] =
     (if isWhiteSpace a then skipWhiteSpace [b]
      else if isWhiteSpace2 a b then []
      else [a, b])"
| "skipWhiteSpace [a] = (if isWhiteSpace a then [] else [a])"
| "skipWhiteSpace [] = []"

definition digitValue :: "char \<Rightarrow> nat option" where
  "digitValue c =
     (let n = (of_char c :: nat) in
      if 48 \<le> n \<and> n \<le> 57 then Some (n - 48)
      else if 97 \<le> n \<and> n \<le> 102 then Some (n - 87)
      else if 65 \<le> n \<and> n \<le> 70 then Some (n - 55)
      else None)"

fun parseDigits :: "nat \<Rightarrow> string \<Rightarrow> nat option \<Rightarrow> nat option" where
  "parseDigits radix [] acc = acc"
| "parseDigits radix (c # cs) acc =
     (case digitValue c of
        None \<Rightarrow> acc
      | Some d \<Rightarrow>
          if d < radix
          then parseDigits radix cs (Some ((case acc of None \<Rightarrow> 0 | Some a \<Rightarrow> a * radix) + d))
          else acc)"

fun stripSign :: "string \<Rightarrow> int \<times> string" where
  "stripSign (c # cs) =
     (if c = CHR ''-'' then (- 1, cs) else if c = CHR ''+'' then (1, cs) else (1, c # cs))"
| "stripSign [] = (1, [])"

fun stripHexPrefix :: "string \<Rightarrow> nat \<times> string" where
  "stripHexPrefix (a # b # cs) =
     (if a = CHR ''0'' \<and> (b = CHR ''x'' \<or> b = CHR ''X'') then (16, cs) else (10, a # b # cs))"
| "stripHexPrefix cs = (10, cs)"

definition parseInt :: "string option \<Rightarrow> number option" where
  "parseInt arg =
     (case arg of
        None \<Rightarrow> None
      | Some s \<Rightarrow>
          (case stripSign (skipWhiteSpace s) of
             (sign, t) \<Rightarrow>
               (case stripHexPrefix t of
                  (radix, u) \<Rightarrow>
                    map_option (\<lambda>n. toDouble (of_int (sign * int n)))
                      (parseDigits radix u None))))"

text \<open>\<open>Array.prototype.findIndex\<close>: the first index whose element satisfies the test, or -1.\<close>

fun findIndex :: "('a \<Rightarrow> bool) \<Rightarrow> 'a list \<Rightarrow> int" where
  "findIndex p [] = - 1"
| "findIndex p (v # vs) =
     (if p v then 0 else (let i = findIndex p vs in if i = - 1 then - 1 else i + 1))"

text \<open>\<open>xs.splice(i, 1)\<close> for an index \<open>i\<close> that is not negative.\<close>

definition splice1 :: "nat \<Rightarrow> 'a list \<Rightarrow> 'a list" where
  "splice1 i vs = take i vs @ drop (Suc i) vs"

text \<open>\<open>s.charAt(0).toUpperCase() + s.slice(1)\<close>, on ASCII letters.\<close>

definition toUpperCase :: "char \<Rightarrow> char" where
  "toUpperCase c =
     (let n = (of_char c :: nat) in if 97 \<le> n \<and> n \<le> 122 then char_of (n - 32) else c)"

fun capitalize :: "string \<Rightarrow> string" where
  "capitalize [] = []"
| "capitalize (c # cs) = toUpperCase c # cs"

text \<open>Decimal digits of a natural number, as a template literal prints an index or a length.\<close>

fun showNat :: "nat \<Rightarrow> string" where
  "showNat n =
     (if n < 10 then [char_of (48 + n)] else showNat (n div 10) @ [char_of (48 + n mod 10)])"

declare showNat.simps [simp del]


section \<open>The building placement grid\<close>

definition gridSize :: number where
  "gridSize = 30"

text \<open>
  The snapping of the drop handler: \<open>Math.round(x / gridSize) * gridSize\<close>, the
  quotient and the product each rounded to a double.
\<close>

definition snapToGrid :: "number \<Rightarrow> number" where
  "snapToGrid v = toDouble (of_int (Math_round (toDouble (v / gridSize))) * gridSize)"

record DOMRect =
  rect_left :: number
  rect_top :: number
  rect_width :: number
  rect_height :: number

text \<open>A palette entry, with its \<open>data-building\<close> and \<open>data-size\<close> attributes.\<close>

record building_item =
  dataset_building :: string
  dataset_size :: string

text \<open>
  A \<open>div.placed-building\<close> created by \<open>placeBuilding\<close>. \<open>node\<close> is the identity
  of the element; the four style fields hold the pixel lengths.
\<close>

record placed_element =
  node :: nat
  style_left :: number
  style_top :: number
  style_width :: number
  style_height :: number
  textContent :: string
  dataset_type :: string

text \<open>An entry of the array \<open>placedBuildings\<close>.\<close>

record placed =
  element :: nat
  x :: number
  y :: number
  width :: number
  height :: number
  type :: string

text \<open>
  An entry of \<open>developmentData.placedBuildings\<close>, built by \<open>exportDevelopment\<close>.
  The console entry of the export holds these entries and the timestamp.
\<close>

record plan_entry =
  plan_type :: string
  position :: "number \<times> number"
  dimensions :: "number \<times> number"

datatype console_entry =
    LogPlaced string number number
  | LogExportingDevelopment "plan_entry list" string

text \<open>
  The state of the page: the two script variables, the children appended to the grid, and
  what the user has been shown. \<open>warnings\<close> lists the warning boxes appended to the
  body (each removes itself after two seconds, which is not modelled), \<open>downloads\<close> the
  files handed to the browser (no handler of this page writes it), \<open>fresh\<close> the
  identity of the next element created.
\<close>

record builder =
  draggedElement :: "building_item option"
  placedBuildings :: "placed list"
  gridChildren :: "placed_element list"
  warnings :: "string list"
  alerts :: "string list"
  console :: "console_entry list"
  downloads :: "(string \<times> string) list"
  fresh :: nat

definition initial_builder :: builder where
  "initial_builder =
     \<lparr>draggedElement = None, placedBuildings = [], gridChildren = [], warnings = [],
      alerts = [], console = [], downloads = [], fresh = 0\<rparr>"

text \<open>
  A drop: the pointer position, the rectangle of the grid, and the rectangle of the
  element that \<open>document.querySelector('.buildable-area')\<close> returns, the first of
  that class in the document.
\<close>

record drop_event =
  clientX :: number
  clientY :: number
  gridRect :: DOMRect
  buildableRect :: DOMRect

definition dragstart :: "building_item \<Rightarrow> builder \<Rightarrow> builder" where
  "dragstart item st = st\<lparr>draggedElement := Some item\<rparr>"

definition placeBuilding ::
  "number \<Rightarrow> number \<Rightarrow> number \<Rightarrow> number \<Rightarrow> string \<Rightarrow> builder \<Rightarrow> builder" where
  "placeBuilding px py w h t st =
     (let building =
            \<lparr>node = fresh st, style_left = px, style_top = py, style_width = w,
             style_height = h, textContent = capitalize t, dataset_type = t\<rparr>
      in st\<lparr>gridChildren := gridChildren st @ [building],
             placedBuildings := placedBuildings st @
               [\<lparr>element = node building, x = px, y = py, width = w, height = h, type = t\<rparr>],
             console := console st @ [LogPlaced t px py],
             fresh := Suc (fresh st)\<rparr>)"

definition showConstraintWarning :: "builder \<Rightarrow> builder" where
  "showConstraintWarning st =
     st\<lparr>warnings := warnings st @ [''Cannot place building outside buildable area!'']\<rparr>"

text \<open>
  The \<open>drop\<close> listener of the grid. With a \<open>NaN\<close> width or height the third or
  the fourth comparison is false, so the warning branch is taken.
\<close>

definition buildingGrid_drop :: "drop_event \<Rightarrow> builder \<Rightarrow> builder" where
  "buildingGrid_drop e st =
     (case draggedElement st of
        None \<Rightarrow> st
      | Some dragged \<Rightarrow>
          (let rx = toDouble (clientX e - rect_left (gridRect e));
               ry = toDouble (clientY e - rect_top (gridRect e));
               snappedX = snapToGrid rx;
               snappedY = snapToGrid ry;
               buildingType = dataset_building dragged;
               buildingSize = js_split CHR ''x'' (dataset_size dragged);
               w = parseInt (index_opt buildingSize 0);
               h = parseInt (index_opt buildingSize 1);
               buildableX = toDouble (rect_left (buildableRect e) - rect_left (gridRect e));
               buildableY = toDouble (rect_top (buildableRect e) - rect_top (gridRect e));
               buildableWidth = rect_width (buildableRect e);
               buildableHeight = rect_height (buildableRect e);
               st' =
                 (case (w, h) of
                    (Some wv, Some hv) \<Rightarrow>
                      if snappedX \<ge> buildableX \<and> snappedY \<ge> buildableY \<and>
                         toDouble (snappedX + wv) \<le> toDouble (buildableX + buildableWidth) \<and>
                         toDouble (snappedY + hv) \<le> toDouble (buildableY + buildableHeight)
                      then placeBuilding snappedX snappedY wv hv buildingType st
                      else showConstraintWarning st
                  | _ \<Rightarrow> showConstraintWarning st)
           in st'\<lparr>draggedElement := None\<rparr>))"

text \<open>
  The \<open>dblclick\<close> listener that \<open>placeBuilding\<close> attaches to the element \<open>this\<close>:
  the element leaves the document, and its entry, when found, leaves the array.
\<close>

definition dblclick :: "nat \<Rightarrow> builder \<Rightarrow> builder" where
  "dblclick this st =
     (let st1 = st\<lparr>gridChildren := filter (\<lambda>c. node c \<noteq> this) (gridChildren st)\<rparr>;
          index = findIndex (\<lambda>b. element b = this) (placedBuildings st1)
      in if index > - 1
         then st1\<lparr>placedBuildings := splice1 (nat index) (placedBuildings st1)\<rparr>
         else st1)"

text \<open>\<open>exportDevelopment\<close>; \<open>now\<close> is \<open>new Date().toISOString()\<close>.\<close>

definition exportDevelopment :: "string \<Rightarrow> builder \<Rightarrow> builder" where
  "exportDevelopment now st =
     (let developmentData =
            map (\<lambda>b. \<lparr>plan_type = type b, position = (x b, y b),
                       dimensions = (width b, height b)\<rparr>) (placedBuildings st)
      in st\<lparr>console := console st @ [LogExportingDevelopment developmentData now],
             alerts := alerts st @
               [''Development Plan exported successfully!'' @ [CHR 0x0A, CHR 0x0A] @
                ''Buildings placed: '' @ showNat (length (placedBuildings st)) @
                [CHR 0x0A, CHR 0x0A] @
                ''This would normally send the plan to your Sgiach platform for cost analysis and feasibility assessment.'']\<rparr>)"

text \<open>The events of the page, and the states the page can reach from its initial one.\<close>

datatype builder_event =
    DragStart building_item
  | Drop drop_event
  | DblClick nat
  | ExportDevelopment string

fun handle :: "builder_event \<Rightarrow> builder \<Rightarrow> builder" where
  "handle (DragStart item) st = dragstart item st"
| "handle (Drop e) st = buildingGrid_drop e st"
| "handle (DblClick n) st = dblclick n st"
| "handle (ExportDevelopment now) st = exportDevelopment now st"

definition run :: "builder_event list \<Rightarrow> builder" where
  "run evs = fold handle evs initial_builder"


section \<open>The landing page: requests, results and exports\<close>

text \<open>
  The outcome of one \<open>fetch\<close> followed by \<open>response.json()\<close>: the request fails in
  the network, or a response arrives with its status and its body, \<open>None\<close> being a body
  that is not JSON. \<open>response.ok\<close> holds for the statuses 200 to 299.
\<close>

datatype 'b fetch_result = NetworkError | Response nat "'b option"

definition ok :: "nat \<Rightarrow> bool" where
  "ok status = (200 \<le> status \<and> status \<le> 299)"

datatype js_error = FetchFailed | Error string | SyntaxError | TypeError string

record property =
  address :: string
  price :: number
  lot_size :: number
  zoning :: string
  source :: string

record financial_analysis =
  total_development_cost :: number
  projected_value :: number
  roi_percentage :: number
  payback_period_months :: number
  net_profit :: number

record scenario =
  scenario_type :: string
  description :: string
  zoning_compliance :: string
  financial_analysis :: financial_analysis
  timeline_months :: number
  risk_score :: number

record opportunity =
  property :: property
  scenarios :: "scenario list"
  score :: number

record summary =
  total_properties_found :: number
  properties_analyzed :: number
  avg_roi :: number
  top_opportunity_roi :: number

record analysis =
  summary :: summary
  opportunities :: "opportunity list"
  analysis_timestamp :: string
  data_sources :: "string list"

text \<open>
  The conversions of a Number to text belong to the JavaScript engine and its locale, so
  the page functions take them as a parameter: \<open>str\<close> is the conversion of a template
  literal, \<open>toFixed\<close> and \<open>toLocaleString\<close> are the methods of those names.
\<close>

record number_format =
  str :: "number \<Rightarrow> string"
  toFixed :: "nat \<Rightarrow> number \<Rightarrow> string"
  toLocaleString :: "number \<Rightarrow> string"

text \<open>
  A card element: its class and the markup assigned to its \<open>innerHTML\<close>. The markup
  is the text of the template literal, every value interpolated as it is, without
  escaping; what the browser parses from it is not modelled.
\<close>

record card =
  className :: string
  innerHTML :: string

text \<open>
  The text of a template literal, given line by line; \<open>sp n\<close> is an indentation of
  \<open>n\<close> spaces and \<open>div_open c\<close> the tag \<open><div class="c">\<close>.
\<close>

definition template :: "string list \<Rightarrow> string" where
  "template ls = js_join [CHR 0x0A] ls"

definition sp :: "nat \<Rightarrow> string" where
  "sp n = replicate n CHR '' ''"

definition div_open :: "string \<Rightarrow> string" where
  "div_open c = ''<div class='' @ [CHR 0x22] @ c @ [CHR 0x22] @ ''>''"

text \<open>
  The state of the landing page. \<open>resultsContainer_display\<close> is the display in
  effect for the results container, \<open>requests\<close> lists the URLs fetched, \<open>toasts\<close>
  the text and type of the notifications shown (each removes itself after four seconds,
  which is not modelled), \<open>log\<close> the lines of the console, \<open>files\<close> the name,
  type and content of the files handed to the browser by \<open>downloadFile\<close>.
\<close>

record app =
  currentAnalysisData :: "analysis option"
  apiStatus_className :: string
  statusIndicator_text :: string
  statusText_text :: string
  resultsSummary_text :: string
  propertiesGrid :: "card list"
  resultsContainer_display :: string
  requests :: "string list"
  toasts :: "(string \<times> string) list"
  log :: "string list"
  files :: "(string \<times> string \<times> string) list"

text \<open>The bullet of the status indicator, in UTF-8.\<close>

definition bullet :: string where
  "bullet = [CHR 0xE2, CHR 0x97, CHR 0x8F]"

definition initial_app :: app where
  "initial_app =
     \<lparr>currentAnalysisData = None, apiStatus_className = ''api-status'',
      statusIndicator_text = bullet, statusText_text = ''Connecting to API...'',
      resultsSummary_text = [], propertiesGrid = [], resultsContainer_display = ''none'',
      requests = [], toasts = [], log = [], files = []\<rparr>"

definition API_BASE_URL :: string where
  "API_BASE_URL = ''http://127.0.0.1:8000''"

definition showMessage :: "string \<Rightarrow> string \<Rightarrow> app \<Rightarrow> app" where
  "showMessage text ty st =
     st\<lparr>log := log st @ [map toUpperCase ty @ '': '' @ text],
        toasts := toasts st @ [(text, ty)]\<rparr>"

definition downloadFile :: "string \<Rightarrow> string \<Rightarrow> string \<Rightarrow> app \<Rightarrow> app" where
  "downloadFile content filename ty st = st\<lparr>files := files st @ [(filename, ty, content)]\<rparr>"

text \<open>
  The body of \<open>/health\<close> as the check reads it: \<open>JNull\<close> is the JSON value
  \<open>null\<close>, on which reading \<open>message\<close> throws; any other value has a \<open>message\<close>,
  \<open>None\<close> when the property is absent, else its text.
\<close>

datatype health_json = JNull | JValue "string option"

record api =
  health :: "health_json fetch_result"
  root :: "unit fetch_result"

text \<open>
  The \<open>try\<close> block of \<open>checkAPIConnection\<close>: what it throws, if anything, and
  the state it leaves.
\<close>

definition checkAPIConnection_health :: "api \<Rightarrow> app \<Rightarrow> js_error option \<times> app" where
  "checkAPIConnection_health env st =
     (let st1 = st\<lparr>requests := requests st @ [API_BASE_URL @ ''/health'']\<rparr> in
      case health env of
        NetworkError \<Rightarrow> (Some FetchFailed, st1)
      | Response status body \<Rightarrow>
          if ok status then
            (case body of
               None \<Rightarrow> (Some SyntaxError, st1)
             | Some healthData \<Rightarrow>
                 (let st2 = st1\<lparr>apiStatus_className := ''api-status connected'',
                                statusIndicator_text := bullet\<rparr> in
                  case healthData of
                    JNull \<Rightarrow> (Some (TypeError ''message''), st2)
                  | JValue message \<Rightarrow>
                      (None,
                       st2\<lparr>statusText_text := ''API Connected - '' @
                              (case message of
                                 None \<Rightarrow> ''Ready''
                               | Some m \<Rightarrow> if m = [] then ''Ready'' else m)\<rparr>)))
          else (Some (Error ''Health check failed''), st1))"

text \<open>The inner \<open>try\<close> block, run by the \<open>catch\<close> of the first.\<close>

definition checkAPIConnection_root :: "api \<Rightarrow> app \<Rightarrow> js_error option \<times> app" where
  "checkAPIConnection_root env st =
     (let st1 = st\<lparr>requests := requests st @ [API_BASE_URL @ ''/'']\<rparr> in
      case root env of
        NetworkError \<Rightarrow> (Some FetchFailed, st1)
      | Response status body \<Rightarrow>
          if ok status
          then (None,
                st1\<lparr>apiStatus_className := ''api-status connected'',
                    statusIndicator_text := bullet,
                    statusText_text := ''API Connected''\<rparr>)
          else (Some (Error ''API not responding''), st1))"

definition checkAPIConnection :: "api \<Rightarrow> app \<Rightarrow> app" where
  "checkAPIConnection env st =
     (case checkAPIConnection_health env st of
        (None, st') \<Rightarrow> st'
      | (Some err, st1) \<Rightarrow>
          (case checkAPIConnection_root env st1 of
             (None, st') \<Rightarrow> st'
           | (Some fallbackError, st2) \<Rightarrow>
               showMessage
                 ''Cannot connect to Real Estate Analysis API. Using test data for demonstration.''
                 ''info''
                 (st2\<lparr>apiStatus_className := ''api-status disconnected'',
                      statusIndicator_text := bullet,
                      statusText_text := ''API Disconnected - Using Test Data''\<rparr>)))"

text \<open>
  \<open>getTestData\<close>; \<open>now\<close> is \<open>new Date().toISOString()\<close>. A decimal
  literal denotes the double nearest to it.
\<close>

definition getTestData :: "string \<Rightarrow> 'f \<Rightarrow> analysis" where
  "getTestData now formData =
     \<lparr>summary =
        \<lparr>total_properties_found = 15, properties_analyzed = 12, avg_roi = toDouble (285 / 10),
         top_opportunity_roi = toDouble (452 / 10)\<rparr>,
      opportunities =
        [\<lparr>property =
            \<lparr>address = ''10542 82 Avenue NW, Edmonton, AB'', price = 850000,
             lot_size = toDouble (12 / 100), zoning = ''RA7'', source = ''Realtor.ca''\<rparr>,
          scenarios =
            [\<lparr>scenario_type = ''Mid-Rise Apartment'',
              description =
                ''4-story, 24-unit residential building with ground floor commercial'',
              zoning_compliance = ''RA7 - Compliant'',
              financial_analysis =
                \<lparr>total_development_cost = 2400000, projected_value = 3200000,
                 roi_percentage = toDouble (333 / 10), payback_period_months = 22,
                 net_profit = 800000\<rparr>,
              timeline_months = 18, risk_score = toDouble (4 / 10)\<rparr>],
          score = toDouble (87 / 10)\<rparr>,
         \<lparr>property =
            \<lparr>address = ''8720 118 Avenue NW, Edmonton, AB'', price = 1200000,
             lot_size = toDouble (18 / 100), zoning = ''CB1'', source = ''Kijiji''\<rparr>,
          scenarios =
            [\<lparr>scenario_type = ''Mixed-Use Development'',
              description = ''3-story mixed-use with retail and office space'',
              zoning_compliance = ''CB1 - Compliant'',
              financial_analysis =
                \<lparr>total_development_cost = 3800000, projected_value = 4900000,
                 roi_percentage = toDouble (289 / 10), payback_period_months = 26,
                 net_profit = 1100000\<rparr>,
              timeline_months = 24, risk_score = toDouble (5 / 10)\<rparr>],
          score = toDouble (82 / 10)\<rparr>],
      analysis_timestamp = now,
      data_sources = [''Realtor.ca'', ''Kijiji'', ''RealtyLink'']\<rparr>"

text \<open>The \<open>try\<close> block of \<open>performAnalysis\<close>; \<open>Inl\<close> is what it throws.\<close>

definition performAnalysis_try :: "analysis fetch_result \<Rightarrow> js_error + analysis" where
  "performAnalysis_try response =
     (case response of
        NetworkError \<Rightarrow> Inl FetchFailed
      | Response status body \<Rightarrow>
          if \<not> ok status then Inl (Error (''API Error: '' @ showNat status))
          else (case body of None \<Rightarrow> Inl SyntaxError | Some results \<Rightarrow> Inr results))"

text \<open>
  \<open>performAnalysis\<close>: the value the returned promise settles with, \<open>Inl\<close> for a
  rejection, and the state after it. The console line of the fallback is logged without
  the error object that follows it in the source.
\<close>

definition performAnalysis ::
  "string \<Rightarrow> 'f \<Rightarrow> analysis fetch_result \<Rightarrow> app \<Rightarrow> (js_error + analysis) \<times> app" where
  "performAnalysis now formData response st =
     (let st1 = st\<lparr>requests := requests st @ [API_BASE_URL @ ''/analyze'']\<rparr> in
      case performAnalysis_try response of
        Inr results \<Rightarrow> (Inr results, st1)
      | Inl err \<Rightarrow>
          (Inr (getTestData now formData),
           st1\<lparr>log := log st1 @ [''Using test data due to API error:'']\<rparr>))"

text \<open>
  \<open>createPropertyCard\<close>. The source binds \<open>mainScenario\<close> to
  \<open>opportunity.scenarios[0]\<close> and does not use it; the scenarios grid is
  \<open>opportunity.scenarios.map(...).join('')\<close>, one inner template for each scenario.
\<close>

definition createPropertyCard :: "number_format \<Rightarrow> opportunity \<Rightarrow> nat \<Rightarrow> card" where
  "createPropertyCard f opportunity rank =
     (let prop = property opportunity;
          mainScenario = index_opt (scenarios opportunity) 0
      in \<lparr>className = ''property-card'',
          innerHTML =
            template
              [[],
               sp 16 @ div_open ''property-header'',
               sp 20 @ ''<div>'',
               sp 24 @ div_open ''property-title'' @ ''#'' @ showNat rank @ '' - '' @
                 address prop @ ''</div>'',
               sp 24 @ div_open ''property-address'' @ ''Zoning: '' @ zoning prop @
                 '' | Lot: '' @ str f (lot_size prop) @ '' acres | Source: '' @
                 source prop @ ''</div>'',
               sp 24 @ div_open ''property-price'' @ ''$'' @ toLocaleString f (price prop) @
                 ''</div>'',
               sp 20 @ ''</div>'',
               sp 16 @ ''</div>'',
               sp 16,
               sp 16 @ div_open ''scenarios-section'',
               sp 20 @ div_open ''scenarios-title'' @ ''Development Scenarios</div>'',
               sp 20 @ div_open ''scenarios-grid'',
               sp 24 @
                 js_join []
                   (map (\<lambda>scenario.
                      template
                        [[],
                         sp 28 @ div_open ''scenario-card'',
                         sp 32 @ div_open ''scenario-type'' @ scenario_type scenario @
                           ''</div>'',
                         sp 32 @ div_open ''scenario-description'' @ description scenario @
                           ''</div>'',
                         sp 32 @ div_open ''scenario-metrics'',
                         sp 36 @ div_open ''metric'',
                         sp 40 @ div_open ''metric-value'' @
                           str f (roi_percentage (financial_analysis scenario)) @ ''%</div>'',
                         sp 40 @ div_open ''metric-label'' @ ''ROI</div>'',
                         sp 36 @ ''</div>'',
                         sp 36 @ div_open ''metric'',
                         sp 40 @ div_open ''metric-value'' @
                           str f (timeline_months scenario) @ ''mo</div>'',
                         sp 40 @ div_open ''metric-label'' @ ''Timeline</div>'',
                         sp 36 @ ''</div>'',
                         sp 36 @ div_open ''metric'',
                         sp 40 @ div_open ''metric-value'' @ ''$'' @
                           toFixed f 1
                             (toDouble
                                (total_development_cost (financial_analysis scenario) /
                                 1000000)) @
                           ''M</div>'',
                         sp 40 @ div_open ''metric-label'' @ ''Investment</div>'',
                         sp 36 @ ''</div>'',
                         sp 36 @ div_open ''metric'',
                         sp 40 @ div_open ''metric-value'' @ ''$'' @
                           toFixed f 0
                             (toDouble (net_profit (financial_analysis scenario) / 1000)) @
                           ''K</div>'',
                         sp 40 @ div_open ''metric-label'' @ ''Net Profit</div>'',
                         sp 36 @ ''</div>'',
                         sp 32 @ ''</div>'',
                         sp 28 @ ''</div>'',
                         sp 24])
                      (scenarios opportunity)),
               sp 20 @ ''</div>'',
               sp 16 @ ''</div>'',
               sp 12]\<rparr>)"

text \<open>The \<open>forEach\<close> of \<open>displayResults\<close>, from index \<open>i\<close> on.\<close>

fun appendCards :: "number_format \<Rightarrow> nat \<Rightarrow> opportunity list \<Rightarrow> card list \<Rightarrow> card list" where
  "appendCards f i [] grid = grid"
| "appendCards f i (opp # opps) grid =
     appendCards f (i + 1) opps (grid @ [createPropertyCard f opp (i + 1)])"

definition displayResults :: "number_format \<Rightarrow> analysis \<Rightarrow> app \<Rightarrow> app" where
  "displayResults f results st =
     st\<lparr>currentAnalysisData := Some results,
        resultsSummary_text :=
          ''Found '' @ str f (total_properties_found (summary results)) @
          '' properties, analyzed '' @ str f (properties_analyzed (summary results)) @
          '' opportunities. '' @
          ''Average ROI: '' @ str f (avg_roi (summary results)) @ ''%. Top opportunity: '' @
          str f (top_opportunity_roi (summary results)) @ ''% ROI.'',
        propertiesGrid := appendCards f 0 (opportunities results) [],
        resultsContainer_display := ''block''\<rparr>"

text \<open>
  The \<open>forEach\<close> of \<open>exportCSV\<close>, from index \<open>i\<close> on, with the text built so
  far. Reading \<open>financial_analysis\<close> of \<open>opp.scenarios[0]\<close> throws when the
  opportunity has no scenario.
\<close>

definition csv_header :: string where
  "csv_header = ''Rank,Address,Price,Zoning,ROI,Timeline,Investment,Profit'' @ [CHR 0x0A]"

fun appendRows :: "number_format \<Rightarrow> nat \<Rightarrow> opportunity list \<Rightarrow> string \<Rightarrow> js_error + string" where
  "appendRows f i [] csv = Inr csv"
| "appendRows f i (opp # opps) csv =
     (let prop = property opp in
      case index_opt (scenarios opp) 0 of
        None \<Rightarrow> Inl (TypeError ''financial_analysis'')
      | Some sc \<Rightarrow>
          (let fa = financial_analysis sc in
           appendRows f (i + 1) opps
             (csv @ showNat (i + 1) @ '','' @ [CHR 0x22] @ address prop @ [CHR 0x22] @ '','' @
              str f (price prop) @ '','' @ zoning prop @ '','' @
              str f (roi_percentage fa) @ '','' @ str f (timeline_months sc) @ '','' @
              str f (total_development_cost fa) @ '','' @ str f (net_profit fa) @
              [CHR 0x0A])))"

text \<open>\<open>exportCSV\<close>; \<open>Inl\<close> is an exception that leaves the click handler.\<close>

definition exportCSV :: "number_format \<Rightarrow> app \<Rightarrow> js_error + app" where
  "exportCSV f st =
     (case currentAnalysisData st of
        None \<Rightarrow> Inr st
      | Some data \<Rightarrow>
          (case appendRows f 0 (opportunities data) csv_header of
             Inl err \<Rightarrow> Inl err
           | Inr csv \<Rightarrow>
               Inr (showMessage ''Analysis exported to CSV successfully!'' ''success''
                      (downloadFile csv ''sgiach-analysis.csv'' ''text/csv'' st))))"

definition newSearch :: "app \<Rightarrow> app" where
  "newSearch st = st\<lparr>resultsContainer_display := ''none'', currentAnalysisData := None\<rparr>"

section \<open>The map page: report export and validation request\<close>

record infrastructure_data =
  total_cost_min :: number
  total_cost_max :: number
  development_timeline :: string

record property_data =
  site_address :: string
  infrastructure :: infrastructure_data
  amenity_score :: number
  professional_validation_required :: bool

text \<open>
  What \<open>loadPropertyAnalysis\<close> stores in \<open>currentProperty\<close>: the parsed response,
  whose \<open>property_data\<close> may be absent. \<open>professional_summary\<close> is kept as text.
\<close>

record property_analysis =
  property_data :: "property_data option"
  professional_summary :: string

record report =
  report_property :: string
  analysis_date :: string
  infrastructure_summary :: infrastructure_data
  report_professional_summary :: string

text \<open>
  The body of \<open>/professional/validation-request\<close> as the page reads it: a value
  without a \<open>validation_request\<close> object, on which reading \<open>request_id\<close> throws, or
  one with it, with the text of its \<open>request_id\<close> (\<open>None\<close> when absent).
\<close>

datatype validation_json = NoValidationRequest | ValidationRequest "string option"

text \<open>
  The state of the map page: \<open>window.sgiachMap.currentProperty\<close>, the alerts shown,
  what \<open>console.error\<close> received, the requests posted and the reports downloaded.
\<close>

record mapping =
  currentProperty :: "property_analysis option"
  shown_alerts :: "string list"
  console_errors :: "(string \<times> js_error) list"
  posted :: "string list"
  reports :: "(string \<times> report) list"

text \<open>
  \<open>exportAnalysisReport\<close>; \<open>nowISO\<close> is \<open>new Date().toISOString()\<close> and
  \<open>nowMs\<close> is \<open>Date.now()\<close>. \<open>Inl\<close> is an exception that leaves the method.
\<close>

definition exportAnalysisReport :: "string \<Rightarrow> nat \<Rightarrow> mapping \<Rightarrow> js_error + mapping" where
  "exportAnalysisReport nowISO nowMs st =
     (case currentProperty st of
        None \<Rightarrow> Inr st
      | Some cp \<Rightarrow>
          (case property_data cp of
             None \<Rightarrow> Inl (TypeError ''address'')
           | Some pd \<Rightarrow>
               (let reportData =
                      \<lparr>report_property = site_address pd, analysis_date = nowISO,
                       infrastructure_summary = infrastructure pd,
                       report_professional_summary = professional_summary cp\<rparr>
                in Inr (st\<lparr>reports := reports st @
                          [(''sgiach-analysis-'' @ showNat nowMs @ ''.json'', reportData)]\<rparr>))))"

text \<open>The \<open>try\<close> block of \<open>requestProfessionalValidation\<close>.\<close>

definition requestProfessionalValidation_try ::
  "validation_json fetch_result \<Rightarrow> mapping \<Rightarrow> js_error option \<times> mapping" where
  "requestProfessionalValidation_try response st =
     (case currentProperty st of
        None \<Rightarrow> (Some (TypeError ''property_data''), st)
      | Some cp \<Rightarrow>
          (let st1 = st\<lparr>posted := posted st @ [''/professional/validation-request'']\<rparr> in
           case response of
             NetworkError \<Rightarrow> (Some FetchFailed, st1)
           | Response status body \<Rightarrow>
               (case body of
                  None \<Rightarrow> (Some SyntaxError, st1)
                | Some NoValidationRequest \<Rightarrow> (Some (TypeError ''request_id''), st1)
                | Some (ValidationRequest request_id) \<Rightarrow>
                    (None,
                     st1\<lparr>shown_alerts := shown_alerts st1 @
                           [''Professional validation requested! Request ID: '' @
                            (case request_id of None \<Rightarrow> ''undefined'' | Some r \<Rightarrow> r)]\<rparr>))))"

definition requestProfessionalValidation ::
  "validation_json fetch_result \<Rightarrow> mapping \<Rightarrow> mapping" where
  "requestProfessionalValidation response st =
     (case requestProfessionalValidation_try response st of
        (None, st') \<Rightarrow> st'
      | (Some err, st') \<Rightarrow>
          st'\<lparr>console_errors := console_errors st' @ [(''Validation request failed:'', err)]\<rparr>)"


section \<open>A number format for running examples\<close>

text \<open>
  What an engine with an English locale prints for the numbers of \<open>getTestData\<close>:
  the shortest decimal that rounds to the double, \<open>toFixed\<close> with ties away from
  zero, and grouping of the integer part by thousands with at most three decimals. The
  first argument of the recursive functions bounds the number of digits produced.
\<close>

fun intDigits :: "nat \<Rightarrow> int \<Rightarrow> string" where
  "intDigits 0 i = []"
| "intDigits (Suc n) i =
     (if i < 10 then [char_of (48 + i)]
      else intDigits n (i div 10) @ [char_of (48 + i mod 10)])"

definition showInt :: "int \<Rightarrow> string" where
  "showInt i = intDigits 40 i"

definition pad :: "nat \<Rightarrow> string \<Rightarrow> string" where
  "pad n m = replicate (n - length m) CHR ''0'' @ m"

text \<open>A non-negative number with \<open>p\<close> decimals, a tie rounded up.\<close>

definition withDecimals :: "nat \<Rightarrow> rat \<Rightarrow> string" where
  "withDecimals p a =
     (if p = 0 then showInt \<lfloor>a + 1 / 2\<rfloor>
      else showInt (\<lfloor>a * 10 ^ p + 1 / 2\<rfloor> div 10 ^ p) @ ''.'' @
           pad p (showInt (\<lfloor>a * 10 ^ p + 1 / 2\<rfloor> mod 10 ^ p)))"

text \<open>The least number of decimals, from \<open>p\<close> on, with which \<open>a\<close> reads back as itself.\<close>

fun decimalsNeeded :: "nat \<Rightarrow> nat \<Rightarrow> rat \<Rightarrow> nat" where
  "decimalsNeeded 0 p a = p"
| "decimalsNeeded (Suc n) p a =
     (if toDouble (of_int \<lfloor>a * 10 ^ p + 1 / 2\<rfloor> / 10 ^ p) = a then p
      else decimalsNeeded n (Suc p) a)"

definition decimal :: "number \<Rightarrow> string" where
  "decimal v =
     (if v < 0 then ''-'' else []) @ withDecimals (decimalsNeeded 20 0 \<bar>v\<bar>) \<bar>v\<bar>"

definition fixed :: "nat \<Rightarrow> number \<Rightarrow> string" where
  "fixed d v = (if v < 0 then ''-'' else []) @ withDecimals d \<bar>v\<bar>"

fun group3 :: "nat \<Rightarrow> int \<Rightarrow> string" where
  "group3 0 i = []"
| "group3 (Suc n) i =
     (if i < 1000 then showInt i
      else group3 n (i div 1000) @ '','' @ pad 3 (showInt (i mod 1000)))"

definition grouped :: "number \<Rightarrow> string" where
  "grouped v =
     (if v < 0 then ''-'' else []) @ group3 14 (\<lfloor>\<bar>v\<bar> * 1000 + 1 / 2\<rfloor> div 1000) @
     (if \<lfloor>\<bar>v\<bar> * 1000 + 1 / 2\<rfloor> mod 1000 = 0 then []
      else ''.'' @
           rev (dropWhile (\<lambda>c. c = CHR ''0'')
                  (rev (pad 3 (showInt (\<lfloor>\<bar>v\<bar> * 1000 + 1 / 2\<rfloor> mod 1000))))))"

definition example_format :: number_format where
  "example_format = \<lparr>str = decimal, toFixed = fixed, toLocaleString = grouped\<rparr>"

definition initial_mapping :: mapping where
  "initial_mapping =
     \<lparr>currentProperty = None, shown_alerts = [], console_errors = [], posted = [],
      reports = []\<rparr>"


section \<open>The conditions of the specification\<close>

text \<open>The width and height the drop handler reads from the dragged item.\<close>

definition item_width :: "building_item \<Rightarrow> number option" where
  "item_width dragged = parseInt (index_opt (js_split CHR ''x'' (dataset_size dragged)) 0)"

definition item_height :: "building_item \<Rightarrow> number option" where
  "item_height dragged = parseInt (index_opt (js_split CHR ''x'' (dataset_size dragged)) 1)"

text \<open>The raw coordinates of a drop, relative to the grid, and their snapped values.\<close>

definition rawX_of :: "drop_event \<Rightarrow> number" where
  "rawX_of e = toDouble (clientX e - rect_left (gridRect e))"

definition rawY_of :: "drop_event \<Rightarrow> number" where
  "rawY_of e = toDouble (clientY e - rect_top (gridRect e))"

definition snappedX_of :: "drop_event \<Rightarrow> number" where
  "snappedX_of e = snapToGrid (rawX_of e)"

definition snappedY_of :: "drop_event \<Rightarrow> number" where
  "snappedY_of e = snapToGrid (rawY_of e)"

definition buildableX_of :: "drop_event \<Rightarrow> number" where
  "buildableX_of e = toDouble (rect_left (buildableRect e) - rect_left (gridRect e))"

definition buildableY_of :: "drop_event \<Rightarrow> number" where
  "buildableY_of e = toDouble (rect_top (buildableRect e) - rect_top (gridRect e))"

text \<open>
  The placement condition as the specification words it: the snapped corner is not left of
  or above the buildable region, and the footprint ends inside it, the sums being those
  of the handler. A comparison with a \<open>NaN\<close> size is false.
\<close>

definition within_buildable :: "drop_event \<Rightarrow> building_item \<Rightarrow> bool" where
  "within_buildable e dragged =
     (snappedX_of e \<ge> buildableX_of e \<and> snappedY_of e \<ge> buildableY_of e \<and>
      (case item_width dragged of
         None \<Rightarrow> False
       | Some wv \<Rightarrow>
           toDouble (snappedX_of e + wv)
             \<le> toDouble (buildableX_of e + rect_width (buildableRect e))) \<and>
      (case item_height dragged of
         None \<Rightarrow> False
       | Some hv \<Rightarrow>
           toDouble (snappedY_of e + hv)
             \<le> toDouble (buildableY_of e + rect_height (buildableRect e))))"

text \<open>A probe fails when the request fails, the status is not 2xx, or its body cannot be read.\<close>

definition health_fails :: "api \<Rightarrow> bool" where
  "health_fails env =
     (case health env of
        NetworkError \<Rightarrow> True
      | Response status body \<Rightarrow> \<not> ok status \<or> body = None \<or> body = Some JNull)"

definition root_fails :: "api \<Rightarrow> bool" where
  "root_fails env =
     (case root env of NetworkError \<Rightarrow> True | Response status body \<Rightarrow> \<not> ok status)"

text \<open>
  The validation request fails when the fetch fails, the body is not JSON, or the body has
  no \<open>validation_request\<close>.
\<close>

definition validation_fails :: "validation_json fetch_result \<Rightarrow> bool" where
  "validation_fails response =
     (case response of
        NetworkError \<Rightarrow> True
      | Response status body \<Rightarrow> body = None \<or> body = Some NoValidationRequest)"

text \<open>
  A probe succeeds when it does not fail; the health probe then shows the message of its
  body, \<open>Ready\<close> when there is none.
\<close>

definition health_message :: "api \<Rightarrow> string" where
  "health_message env =
     (case health env of
        Response status (Some (JValue (Some m))) \<Rightarrow> if m = [] then ''Ready'' else m
      | _ \<Rightarrow> ''Ready'')"

text \<open>
  The markup of a property card as the specification, amended, words it: a header with
  the rank and the address, the zoning, lot size and source, and the price; then one
  scenario card for every scenario, with its type, its description and its four metrics
  (ROI, timeline, investment in millions, net profit in thousands); then the closing tags.
\<close>

definition card_header :: "number_format \<Rightarrow> property \<Rightarrow> nat \<Rightarrow> string" where
  "card_header f prop rank =
     [CHR 0x0A] @
     sp 16 @ div_open ''property-header'' @ [CHR 0x0A] @
     sp 20 @ ''<div>'' @ [CHR 0x0A] @
     sp 24 @ div_open ''property-title'' @ ''#'' @ showNat rank @ '' - '' @ address prop @
       ''</div>'' @ [CHR 0x0A] @
     sp 24 @ div_open ''property-address'' @ ''Zoning: '' @ zoning prop @ '' | Lot: '' @
       str f (lot_size prop) @ '' acres | Source: '' @ source prop @ ''</div>'' @ [CHR 0x0A] @
     sp 24 @ div_open ''property-price'' @ ''$'' @ toLocaleString f (price prop) @
       ''</div>'' @ [CHR 0x0A] @
     sp 20 @ ''</div>'' @ [CHR 0x0A] @
     sp 16 @ ''</div>'' @ [CHR 0x0A] @
     sp 16 @ [CHR 0x0A] @
     sp 16 @ div_open ''scenarios-section'' @ [CHR 0x0A] @
     sp 20 @ div_open ''scenarios-title'' @ ''Development Scenarios</div>'' @ [CHR 0x0A] @
     sp 20 @ div_open ''scenarios-grid'' @ [CHR 0x0A] @
     sp 24"

definition metric_markup :: "string \<Rightarrow> string \<Rightarrow> string" where
  "metric_markup v label =
     sp 36 @ div_open ''metric'' @ [CHR 0x0A] @
     sp 40 @ div_open ''metric-value'' @ v @ ''</div>'' @ [CHR 0x0A] @
     sp 40 @ div_open ''metric-label'' @ label @ ''</div>'' @ [CHR 0x0A] @
     sp 36 @ ''</div>'' @ [CHR 0x0A]"

definition scenario_block :: "number_format \<Rightarrow> scenario \<Rightarrow> string" where
  "scenario_block f sc =
     [CHR 0x0A] @
     sp 28 @ div_open ''scenario-card'' @ [CHR 0x0A] @
     sp 32 @ div_open ''scenario-type'' @ scenario_type sc @ ''</div>'' @ [CHR 0x0A] @
     sp 32 @ div_open ''scenario-description'' @ description sc @ ''</div>'' @ [CHR 0x0A] @
     sp 32 @ div_open ''scenario-metrics'' @ [CHR 0x0A] @
     metric_markup (str f (roi_percentage (financial_analysis sc)) @ ''%'') ''ROI'' @
     metric_markup (str f (timeline_months sc) @ ''mo'') ''Timeline'' @
     metric_markup
       (''$'' @
        toFixed f 1 (toDouble (total_development_cost (financial_analysis sc) / 1000000)) @
        ''M'')
       ''Investment'' @
     metric_markup
       (''$'' @ toFixed f 0 (toDouble (net_profit (financial_analysis sc) / 1000)) @ ''K'')
       ''Net Profit'' @
     sp 32 @ ''</div>'' @ [CHR 0x0A] @
     sp 28 @ ''</div>'' @ [CHR 0x0A] @
     sp 24"

definition card_footer :: string where
  "card_footer =
     [CHR 0x0A] @
     sp 20 @ ''</div>'' @ [CHR 0x0A] @
     sp 16 @ ''</div>'' @ [CHR 0x0A] @
     sp 12"

text \<open>One data row of the CSV file.\<close>

definition csv_row :: "number_format \<Rightarrow> nat \<Rightarrow> property \<Rightarrow> scenario \<Rightarrow> string" where
  "csv_row f rank prop sc =
     showNat rank @ '','' @ [CHR 0x22] @ address prop @ [CHR 0x22] @ '','' @
     str f (price prop) @ '','' @ zoning prop @ '','' @
     str f (roi_percentage (financial_analysis sc)) @ '','' @
     str f (timeline_months sc) @ '','' @
     str f (total_development_cost (financial_analysis sc)) @ '','' @
     str f (net_profit (financial_analysis sc)) @ [CHR 0x0A]"


text \<open>A coordinate that is an integer multiple of the grid unit.\<close>

definition on_grid :: "number \<Rightarrow> bool" where
  "on_grid v = (of_int \<lfloor>v / gridSize\<rfloor> * gridSize = v)"





section \<open>Example inputs\<close>

text \<open>
  The palette's single-family item, dropped at the raw point (85, 95) of the grid; the
  rectangle that the handler reads for \<open>.buildable-area\<close> begins 80 pixels right of
  and below the corner of the grid.
\<close>

definition single_family :: building_item where
  "single_family = \<lparr>dataset_building = ''single-family'', dataset_size = ''120x80''\<rparr>"

definition example_drop :: drop_event where
  "example_drop =
     \<lparr>clientX = 185, clientY = 295,
      gridRect = \<lparr>rect_left = 100, rect_top = 200, rect_width = 600, rect_height = 500\<rparr>,
      buildableRect = \<lparr>rect_left = 180, rect_top = 280, rect_width = 440, rect_height = 340\<rparr>\<rparr>"

text \<open>The same item dropped at the raw point (600, 95), where its footprint leaves the region.\<close>

definition outside_drop :: drop_event where
  "outside_drop = example_drop\<lparr>clientX := 700\<rparr>"

definition example_events :: "builder_event list" where
  "example_events = [DragStart single_family, Drop example_drop]"



text \<open>The first opportunity of the test data, given both scenarios of the test data.\<close>

definition two_scenarios :: opportunity where
  "two_scenarios =
     (case opportunities (getTestData [] ()) of
        a # b # rest \<Rightarrow> a\<lparr>scenarios := scenarios a @ scenarios b\<rparr>
      | _ \<Rightarrow> \<lparr>property = \<lparr>address = [], price = 0, lot_size = 0, zoning = [], source = []\<rparr>,
             scenarios = [], score = 0\<rparr>)"

definition loaded_mapping :: mapping where
  "loaded_mapping =
     initial_mapping\<lparr>currentProperty :=
       Some \<lparr>property_data =
               Some \<lparr>site_address = ''Analysis Property'',
                     infrastructure =
                       \<lparr>total_cost_min = 100000, total_cost_max = 250000,
                        development_timeline = ''12 months''\<rparr>,
                     amenity_score = 7, professional_validation_required = True\<rparr>,
             professional_summary = []\<rparr>\<rparr>"

text \<open>The landing page after the test data has been displayed.\<close>

definition displayed_app :: app where
  "displayed_app = displayResults example_format (getTestData [] ()) initial_app"

definition api_ready :: api where
  "api_ready = \<lparr>health = Response 200 (Some (JValue (Some ''Ready''))), root = NetworkError\<rparr>"

definition api_down :: api where
  "api_down = \<lparr>health = NetworkError, root = Response 503 None\<rparr>"

definition api_root_only :: api where
  "api_root_only = \<lparr>health = Response 404 None, root = Response 200 None\<rparr>"

text \<open>
  The test data with its first opportunity alone, stripped of its scenarios, and the
  landing page after that result has been displayed.
\<close>

definition no_scenario_data :: analysis where
  "no_scenario_data =
     (getTestData [] ())\<lparr>opportunities :=
        map (\<lambda>opp. opp\<lparr>scenarios := []\<rparr>) (take 1 (opportunities (getTestData [] ())))\<rparr>"

definition no_scenario_app :: app where
  "no_scenario_app = displayResults example_format no_scenario_data initial_app"

text \<open>The placement page with one building placed, as \<open>example_events\<close> leave it.\<close>

definition one_placed :: builder where
  "one_placed =
     initial_builder
       \<lparr>placedBuildings :=
          [\<lparr>element = 0, x = 90, y = 90, width = 120, height = 80, type = ''single-family''\<rparr>],
        gridChildren :=
          [\<lparr>node = 0, style_left = 90, style_top = 90, style_width = 120, style_height = 80,
            textContent = ''Single-family'', dataset_type = ''single-family''\<rparr>],
        console := [LogPlaced ''single-family'' 90 90],
        fresh := 1\<rparr>"

section \<open>Double arithmetic\<close>

lemma two_powi_nat: "z \<ge> 0 \<Longrightarrow> (2::rat) powi z = 2 ^ nat z"
  by (simp add: power_int_def)

lemma two_powi_neg: "z \<ge> 0 \<Longrightarrow> (2::rat) powi (- z) = 1 / 2 ^ nat z"
  by (simp add: power_int_minus two_powi_nat inverse_eq_divide)

lemma expo_bounds:
  assumes "q > 0"
  shows "2 powi (expo q) \<le> q" and "q < 2 powi (expo q + 1)"
proof -
  have "2 powi (expo q) \<le> q \<and> q < 2 powi (expo q + 1)"
  proof (cases "q \<ge> 1")
    case True
    then have pos: "\<lfloor>q\<rfloor> > 0" by linarith
    define b where "b = bitlen \<lfloor>q\<rfloor>"
    from bitlen_bounds [OF pos]
    have lo: "2 ^ nat (b - 1) \<le> \<lfloor>q\<rfloor>" and hi: "\<lfloor>q\<rfloor> < 2 ^ nat b"
      by (simp_all add: b_def)
    have b1: "b \<ge> 1" using pos by (simp add: b_def bitlen_alt_def)
    have "(2::rat) ^ nat (b - 1) = of_int (2 ^ nat (b - 1))" by simp
    also have "\<dots> \<le> of_int \<lfloor>q\<rfloor>" using lo by (simp only: of_int_le_iff)
    also have "\<dots> \<le> q" by simp
    finally have l: "(2::rat) ^ nat (b - 1) \<le> q" .
    from hi have "\<lfloor>q\<rfloor> + 1 \<le> 2 ^ nat b" by simp
    then have "(of_int (\<lfloor>q\<rfloor> + 1) :: rat) \<le> of_int (2 ^ nat b)" by (simp only: of_int_le_iff)
    then have "of_int \<lfloor>q\<rfloor> + 1 \<le> (2::rat) ^ nat b" by simp
    moreover have "q < of_int \<lfloor>q\<rfloor> + 1" by linarith
    ultimately have h: "q < (2::rat) ^ nat b" by linarith
    have e: "expo q = b - 1" using True by (simp add: expo_def b_def)
    show ?thesis using l h b1 by (simp add: e two_powi_nat)
  next
    case False
    with assms have q1: "q < 1" by simp
    define c where "c = \<lceil>1 / q\<rceil>"
    have inv: "1 / q > 1" using assms q1 by simp
    then have c2: "c \<ge> 2" unfolding c_def by linarith
    then have pos: "c - 1 > 0" by simp
    define b where "b = bitlen (c - 1)"
    from bitlen_bounds [OF pos]
    have lo: "2 ^ nat (b - 1) \<le> c - 1" and hi: "c - 1 < 2 ^ nat b"
      by (simp_all add: b_def)
    have b1: "b \<ge> 1" using pos by (simp add: b_def bitlen_alt_def)
    have clt: "of_int c - 1 < 1 / q" unfolding c_def by linarith
    have cge: "1 / q \<le> of_int c" unfolding c_def by linarith
    have "(2::rat) ^ nat (b - 1) = of_int (2 ^ nat (b - 1))" by simp
    also have "\<dots> \<le> of_int (c - 1)" using lo by (simp only: of_int_le_iff)
    also have "\<dots> < 1 / q" using clt by simp
    finally have l: "(2::rat) ^ nat (b - 1) < 1 / q" .
    from hi have "c \<le> 2 ^ nat b" by simp
    then have "(of_int c :: rat) \<le> 2 ^ nat b" by simp
    then have h: "1 / q \<le> (2::rat) ^ nat b" using cge by linarith
    have e: "expo q = - b" using False by (simp add: expo_def b_def c_def)
    have p: "(2::rat) ^ nat b > 0" "(2::rat) ^ nat (b - 1) > 0" by simp_all
    from h assms p have A: "1 / 2 ^ nat b \<le> q"
      by (simp add: field_simps)
    from l assms p have B: "q < 1 / 2 ^ nat (b - 1)"
      by (simp add: field_simps)
    have "- b + 1 = - (b - 1)" by simp
    then have "(2::rat) powi (- b + 1) = 1 / 2 ^ nat (b - 1)"
      using b1 two_powi_neg [of "b - 1"] by simp
    moreover have "(2::rat) powi (- b) = 1 / 2 ^ nat b"
      using b1 two_powi_neg [of b] by simp
    ultimately show ?thesis using A B by (simp add: e)
  qed
  then show "2 powi (expo q) \<le> q" and "q < 2 powi (expo q + 1)" by simp_all
qed

lemma expo_unique:
  assumes "2 powi j \<le> q" "q < 2 powi (j + 1)"
  shows "expo q = j"
proof -
  have q: "q > 0" using assms(1) zero_less_power_int [of "2::rat" j] by linarith
  note b = expo_bounds [OF q]
  have "2 powi j < (2::rat) powi (expo q + 1)" using assms(1) b(2) by linarith
  then have "j < expo q + 1"
    by (metis leI not_less_iff_gr_or_eq one_le_numeral power_int_increasing leD)
  moreover have "2 powi (expo q) < (2::rat) powi (j + 1)" using assms(2) b(1) by linarith
  then have "expo q < j + 1"
    by (metis leI not_less_iff_gr_or_eq one_le_numeral power_int_increasing leD)
  ultimately show ?thesis by simp
qed

lemma expo_ge:
  assumes "2 powi j \<le> q"
  shows "j \<le> expo q"
proof -
  have q: "q > 0" using assms(1) zero_less_power_int [of "2::rat" j] by linarith
  note b = expo_bounds [OF q]
  have "2 powi j < (2::rat) powi (expo q + 1)" using assms(1) b(2) by linarith
  then have "j < expo q + 1"
    by (metis leI not_less_iff_gr_or_eq one_le_numeral power_int_increasing leD)
  then show ?thesis by simp
qed

lemma expo_less:
  assumes "q > 0" "q < 2 powi (j + 1)"
  shows "expo q \<le> j"
proof -
  note b = expo_bounds [OF assms(1)]
  have "2 powi (expo q) < (2::rat) powi (j + 1)" using assms(2) b(1) by linarith
  then have "expo q < j + 1"
    by (metis leI not_less_iff_gr_or_eq one_le_numeral power_int_increasing leD)
  then show ?thesis by simp
qed


lemma pw_add: "(2::rat) powi (a + b) = 2 powi a * 2 powi b"
  by (simp add: power_int_add)

lemma pw_pos: "(2::rat) powi a > 0"
  by simp

lemma ulp_bexp: "ulp q = 2 powi (bexp q - 52)"
  by (simp add: ulp_def)

lemma ulp_pos: "ulp q > 0"
  by (simp add: ulp_def)

lemma rhe_nearest: "\<bar>of_int (roundHalfEven r) - r\<bar> \<le> \<bar>of_int n - r\<bar>"
proof -
  define f where "f = \<lfloor>r\<rfloor>"
  have fl: "of_int f \<le> r" "r < of_int f + 1" unfolding f_def by linarith+
  have rhe: "roundHalfEven r = f \<and> r - of_int f \<le> 1 / 2
           \<or> roundHalfEven r = f + 1 \<and> r - of_int f \<ge> 1 / 2"
    unfolding roundHalfEven_def f_def [symmetric] by (simp add: not_less)
  have n: "(of_int n :: rat) \<le> of_int f \<or> (of_int n :: rat) \<ge> of_int f + 1"
  proof (cases "n \<le> f")
    case True
    then have "(of_int n :: rat) \<le> of_int f" by (simp only: of_int_le_iff)
    then show ?thesis ..
  next
    case False
    then have "f + 1 \<le> n" by simp
    then have "(of_int (f + 1) :: rat) \<le> of_int n" by (simp only: of_int_le_iff)
    then show ?thesis by simp
  qed
  from rhe show ?thesis
  proof
    assume a: "roundHalfEven r = f \<and> r - of_int f \<le> 1 / 2"
    then have "\<bar>of_int (roundHalfEven r) - r\<bar> = r - of_int f" using fl by simp
    moreover have "r - of_int f \<le> \<bar>of_int n - r\<bar>" using n a fl by linarith
    ultimately show ?thesis by simp
  next
    assume a: "roundHalfEven r = f + 1 \<and> r - of_int f \<ge> 1 / 2"
    then have "\<bar>of_int (roundHalfEven r) - r\<bar> = of_int f + 1 - r" using fl by simp
    moreover have "of_int f + 1 - r \<le> \<bar>of_int n - r\<bar>" using n a fl by linarith
    ultimately show ?thesis by simp
  qed
qed

lemma rhe_of_int: "roundHalfEven (of_int n) = n"
  by (simp add: roundHalfEven_def)

lemma toDouble_fixI:
  assumes "d = of_int m * ulp d"
  shows "toDouble d = d"
proof (cases "d = 0")
  case True
  then show ?thesis by (simp add: toDouble_def)
next
  case False
  have "d / ulp d = of_int m" using assms ulp_pos [of d]
    by (metis nonzero_mult_div_cancel_right less_irrefl)
  then show ?thesis using False assms by (simp add: toDouble_def rhe_of_int)
qed

lemma toDouble_fixD:
  assumes "toDouble d = d"
  shows "\<exists>m. d = of_int m * ulp d"
proof (cases "d = 0")
  case True
  then have "d = of_int 0 * ulp d" by simp
  then show ?thesis by blast
next
  case False
  with assms have "d = of_int (roundHalfEven (d / ulp d)) * ulp d"
    by (simp add: toDouble_def)
  then show ?thesis by blast
qed

lemma bexp_ge: "2 powi j \<le> \<bar>d\<bar> \<Longrightarrow> j \<le> bexp d"
  using expo_ge [of j "\<bar>d\<bar>"] by (simp add: bexp_def)

lemma bexp_min: "- 1022 \<le> bexp d"
  by (simp add: bexp_def)

lemma bexp_le: "d \<noteq> 0 \<Longrightarrow> \<bar>d\<bar> < 2 powi (j + 1) \<Longrightarrow> - 1022 \<le> j \<Longrightarrow> bexp d \<le> j"
  using expo_less [of "\<bar>d\<bar>" j] by (simp add: bexp_def)

lemma double_multiple:
  assumes "toDouble d = d" "j \<le> bexp d"
  shows "\<exists>n. d = of_int n * 2 powi (j - 52)"
proof -
  from toDouble_fixD [OF assms(1)] obtain m where m: "d = of_int m * ulp d" by blast
  have "bexp d - 52 = (bexp d - j) + (j - 52)" by simp
  then have "ulp d = 2 powi (bexp d - j) * 2 powi (j - 52)"
    unfolding ulp_bexp by (simp only: pw_add)
  also have "2 powi (bexp d - j) = (2::rat) ^ nat (bexp d - j)"
    using assms(2) by (simp add: two_powi_nat)
  finally have "d = of_int (m * 2 ^ nat (bexp d - j)) * 2 powi (j - 52)"
    using m by simp
  then show ?thesis by blast
qed

lemma multiple_double:
  assumes "d = of_int n * 2 powi (j - 52)" "bexp d \<le> j"
  shows "toDouble d = d"
proof -
  have "j - 52 = (j - bexp d) + (bexp d - 52)" by simp
  then have "2 powi (j - 52) = 2 powi (j - bexp d) * ulp d"
    unfolding ulp_bexp by (simp only: pw_add)
  also have "2 powi (j - bexp d) = (2::rat) ^ nat (j - bexp d)"
    using assms(2) by (simp add: two_powi_nat)
  finally have "d = of_int (n * 2 ^ nat (j - bexp d)) * ulp d"
    using assms(1) by simp
  then show ?thesis by (rule toDouble_fixI)
qed

lemma double_of_mantissa:
  assumes "d = of_int n * 2 powi (j - 52)" "\<bar>n\<bar> \<le> 2 ^ 53" "- 1022 \<le> j"
  shows "toDouble d = d"
proof -
  have small: "toDouble c = c"
    if c: "c = of_int l * 2 powi (i - 52)" and l: "\<bar>l\<bar> < 2 ^ 53" and i: "- 1022 \<le> i"
    for c l i
  proof (cases "c = 0")
    case True
    then show ?thesis by (simp add: toDouble_def)
  next
    case False
    have "\<bar>of_int l :: rat\<bar> < 2 ^ 53" using l
      by (metis of_int_abs of_int_less_numeral_power_cancel_iff)
    then have B: "\<bar>of_int l :: rat\<bar> * 2 powi (i - 52) < 2 ^ 53 * 2 powi (i - 52)"
      by (intro mult_strict_right_mono) simp_all
    have C: "(2::rat) ^ 53 * 2 powi (i - 52) = 2 powi (i + 1)"
    proof -
      have "i + 1 = 53 + (i - 52)" by simp
      then have "(2::rat) powi (i + 1) = 2 powi 53 * 2 powi (i - 52)" by (simp only: pw_add)
      then show ?thesis by simp
    qed
    have A: "\<bar>c\<bar> = \<bar>of_int l :: rat\<bar> * 2 powi (i - 52)"
      unfolding c by (simp add: abs_mult)
    from B have "\<bar>of_int l :: rat\<bar> * 2 powi (i - 52) < 2 powi (i + 1)" unfolding C .
    then have "\<bar>c\<bar> < 2 powi (i + 1)" unfolding A .
    with False i have "bexp c \<le> i" by (intro bexp_le)
    with c show ?thesis by (rule multiple_double)
  qed
  show ?thesis
  proof (cases "\<bar>n\<bar> < 2 ^ 53")
    case True
    with assms show ?thesis by (intro small [of d n j])
  next
    case False
    with assms(2) have n: "\<bar>n\<bar> = 2 ^ 53" by simp
    then have pm: "n = 2 ^ 53 \<or> n = - (2 ^ 53)" by (simp add: abs_if split: if_splits)
    then have ev: "n = 2 * (n div 2)" by auto
    have "j + 1 - 52 = 1 + (j - 52)" by simp
    then have "(2::rat) powi (j + 1 - 52) = 2 * 2 powi (j - 52)"
      by (simp only: pw_add) simp
    then have "of_int (n div 2) * (2::rat) powi (j + 1 - 52) = of_int (2 * (n div 2)) * 2 powi (j - 52)"
      by simp
    also have "\<dots> = d" using ev assms(1) by simp
    finally have d: "d = of_int (n div 2) * 2 powi (j + 1 - 52)" by simp
    have "\<bar>n div 2\<bar> < 2 ^ 53" using pm by auto
    with d assms(3) show ?thesis by (intro small [of d "n div 2" "j + 1"]) simp_all
  qed
qed

lemma toDouble_int:
  assumes "\<bar>n\<bar> < 2 ^ 53"
  shows "toDouble (of_int n) = of_int n"
proof -
  have "(of_int n :: rat) = of_int n * 2 powi (52 - 52)" by simp
  then show ?thesis using assms by (intro double_of_mantissa [of "of_int n" n 52]) simp_all
qed

lemma toDouble_half_int:
  assumes "\<bar>m\<bar> < 2 ^ 53"
  shows "toDouble (of_int m / 2) = of_int m / 2"
proof -
  have "(of_int m / 2 :: rat) = of_int m * 2 powi (51 - 52)" by simp
  then show ?thesis using assms by (intro double_of_mantissa [of "of_int m / 2" m 51]) simp_all
qed

lemma toDouble_nearest_multiple:
  "\<bar>toDouble q - q\<bar> \<le> \<bar>of_int n * ulp q - q\<bar>"
proof (cases "q = 0")
  case True
  then show ?thesis by (simp add: toDouble_def)
next
  case False
  define u where "u = ulp q"
  have u: "u > 0" unfolding u_def by (rule ulp_pos)
  have "\<bar>of_int (roundHalfEven (q / u)) - q / u\<bar> \<le> \<bar>of_int n - q / u\<bar>"
    by (rule rhe_nearest)
  then have "\<bar>of_int (roundHalfEven (q / u)) - q / u\<bar> * u \<le> \<bar>of_int n - q / u\<bar> * u"
    using u by (intro mult_right_mono) simp_all
  moreover have "\<bar>a - q / u\<bar> * u = \<bar>a * u - q\<bar>" for a
  proof -
    have "\<bar>a - q / u\<bar> * u = \<bar>a - q / u\<bar> * \<bar>u\<bar>" using u by simp
    also have "\<dots> = \<bar>(a - q / u) * u\<bar>" by (simp only: abs_mult)
    also have "(a - q / u) * u = a * u - q" using u by (simp add: field_simps)
    finally show ?thesis .
  qed
  ultimately have "\<bar>of_int (roundHalfEven (q / u)) * u - q\<bar> \<le> \<bar>of_int n * u - q\<bar>"
    by simp
  then show ?thesis using False by (simp add: toDouble_def u_def)
qed

lemma toDouble_nearest:
  assumes "toDouble d = d"
  shows "\<bar>toDouble q - q\<bar> \<le> \<bar>d - q\<bar>"
proof (cases "q = 0")
  case True
  then show ?thesis by (simp add: toDouble_def)
next
  case q0: False
  show ?thesis
  proof (cases "bexp q \<le> bexp d")
    case True
    from double_multiple [OF assms True] obtain n where "d = of_int n * ulp q"
      unfolding ulp_bexp by blast
    then show ?thesis using toDouble_nearest_multiple [of q n] by simp
  next
    case False
    then have lt: "bexp d < bexp q" by simp
    have "- 1022 \<le> bexp d" by (rule bexp_min)
    with lt have big: "- 1022 < bexp q" by simp
    then have be: "bexp q = expo \<bar>q\<bar>" by (simp add: bexp_def)
    from q0 have ql: "2 powi (bexp q) \<le> \<bar>q\<bar>" using expo_bounds(1) [of "\<bar>q\<bar>"] be by simp
    have dl: "\<bar>d\<bar> < 2 powi (bexp q)"
    proof (rule ccontr)
      assume "\<not> \<bar>d\<bar> < 2 powi (bexp q)"
      then have "2 powi (bexp q) \<le> \<bar>d\<bar>" by simp
      then have "bexp q \<le> bexp d" by (rule bexp_ge)
      with lt show False by simp
    qed
    define t where "t = (2::rat) powi (bexp q)"
    have t: "t = of_int (2 ^ 52) * ulp q"
    proof -
      have "(2::rat) powi (52 + (bexp q - 52)) = 2 powi 52 * 2 powi (bexp q - 52)"
        by (rule pw_add)
      then show ?thesis by (simp add: ulp_bexp t_def)
    qed
    have "\<bar>toDouble q - q\<bar> \<le> \<bar>of_int (2 ^ 52) * ulp q - q\<bar>"
      by (rule toDouble_nearest_multiple)
    then have p: "\<bar>toDouble q - q\<bar> \<le> \<bar>t - q\<bar>" unfolding t .
    have "\<bar>toDouble q - q\<bar> \<le> \<bar>of_int (- (2 ^ 52)) * ulp q - q\<bar>"
      by (rule toDouble_nearest_multiple)
    also have "of_int (- (2 ^ 52)) * ulp q = - t" unfolding t by simp
    finally have m: "\<bar>toDouble q - q\<bar> \<le> \<bar>- t - q\<bar>" .
    from ql dl p m show ?thesis unfolding t_def [symmetric] by linarith
  qed
qed

lemma toDouble_le:
  assumes "toDouble d = d" "q \<le> d"
  shows "toDouble q \<le> d"
  using toDouble_nearest [OF assms(1), of q] assms(2) by linarith

lemma toDouble_ge:
  assumes "toDouble d = d" "d \<le> q"
  shows "d \<le> toDouble q"
  using toDouble_nearest [OF assms(1), of q] assms(2) by linarith


text \<open>
  The quotient of a double by 30 never rounds up to a half-integer: a double below
  \<open>30 * h\<close> lies at least 16 steps of \<open>h\<close> below it, so its quotient lies more
  than half a step below \<open>h\<close>, nearer to the double next below \<open>h\<close>.
\<close>

lemma below_half:
  assumes v: "toDouble v = v"
    and m: "\<bar>15 * (2 * k + 1)\<bar> < (2::int) ^ 53"
    and lt: "v / 30 < of_int k + 1 / 2"
  shows "toDouble (v / 30) < of_int k + 1 / 2"
proof -
  define h :: rat where "h = of_int k + 1 / 2"
  define s where "s = ulp h"
  define e where "e = expo \<bar>h\<bar>"
  have h2: "h = of_int (2 * k + 1) / 2" by (simp add: h_def field_simps)
  have "\<bar>2 * k + 1\<bar> < 2 ^ 53" using m by (simp add: abs_mult)
  then have dh: "toDouble h = h" unfolding h2 by (rule toDouble_half_int)
  have H: "30 * h = of_int (15 * (2 * k + 1))" unfolding h2 by simp
  have dH: "toDouble (30 * h) = 30 * h" unfolding H using m by (rule toDouble_int)
  have "2 * k + 1 \<ge> 1 \<or> 2 * k + 1 \<le> - 1" by presburger
  then have "(of_int (2 * k + 1) :: rat) \<ge> 1 \<or> (of_int (2 * k + 1) :: rat) \<le> - 1"
    by (metis of_int_le_iff of_int_1 of_int_minus)
  then have hge: "\<bar>h\<bar> \<ge> 1 / 2" unfolding h2 by (simp add: abs_if; linarith)
  then have hpos: "\<bar>h\<bar> > 0" by linarith
  have elo: "2 powi e \<le> \<bar>h\<bar>" and ehi: "\<bar>h\<bar> < 2 powi (e + 1)"
    unfolding e_def using expo_bounds [OF hpos] by simp_all
  have "(2::rat) powi (- 1) \<le> \<bar>h\<bar>" using hge by simp
  then have e1: "- 1 \<le> e" unfolding e_def by (rule expo_ge)
  then have be: "bexp h = e" by (simp add: bexp_def e_def)
  have s: "s = 2 powi (e - 52)" by (simp add: s_def ulp_bexp be)
  have spos: "s > 0" by (simp add: s)
  have pe: "(2::rat) powi e = 2 ^ 52 * s"
  proof -
    have "(2::rat) powi (52 + (e - 52)) = 2 powi 52 * 2 powi (e - 52)" by (rule pw_add)
    then show ?thesis by (simp add: s)
  qed
  have pe4: "(2::rat) powi (e + 4 - 52) = 16 * s"
  proof -
    have "(2::rat) powi (4 + (e - 52)) = 2 powi 4 * 2 powi (e - 52)" by (rule pw_add)
    moreover have "e + 4 - 52 = 4 + (e - 52)" by simp
    ultimately show ?thesis by (simp add: s)
  qed
  have pe4': "(2::rat) powi (e + 4) = 16 * 2 powi e"
  proof -
    have "(2::rat) powi (4 + e) = 2 powi 4 * 2 powi e" by (rule pw_add)
    then show ?thesis by (simp add: add.commute)
  qed
  have pe1: "(2::rat) powi (e + 1) = 2 ^ 53 * s"
  proof -
    have "(2::rat) powi (1 + e) = 2 powi 1 * 2 powi e" by (rule pw_add)
    then show ?thesis by (simp add: add.commute pe)
  qed
  have far: "v < 30 * h - 15 * s"
  proof (rule ccontr)
    assume "\<not> v < 30 * h - 15 * s"
    then have vge: "30 * h - 15 * s \<le> v" by simp
    from lt have vlt: "v < 30 * h" by (simp add: h_def)
    have "2 powi (e + 4) \<le> \<bar>30 * h\<bar>" using elo unfolding pe4' by (simp add: abs_mult)
    then have jH: "e + 4 \<le> bexp (30 * h)" by (rule bexp_ge)
    have "2 powi (e + 4) \<le> \<bar>v\<bar>"
    proof (cases "h > 0")
      case True
      with elo have "2 powi e \<le> h" by simp
      with vge spos pe show ?thesis unfolding pe4' by (simp add: abs_if; linarith)
    next
      case False
      with hpos have "h < 0" by simp
      with elo have "2 powi e \<le> - h" by simp
      with vlt show ?thesis unfolding pe4' by (simp add: abs_if; linarith)
    qed
    then have jv: "e + 4 \<le> bexp v" by (rule bexp_ge)
    from double_multiple [OF v jv] obtain n where n: "v = of_int n * (16 * s)"
      unfolding pe4 by blast
    from double_multiple [OF dH jH] obtain n' where n': "30 * h = of_int n' * (16 * s)"
      unfolding pe4 by blast
    from vlt have "of_int n * (16 * s) < of_int n' * (16 * s)" unfolding n n' [symmetric] by simp
    moreover have "16 * s > 0" using spos by simp
    ultimately have "(of_int n :: rat) < of_int n'"
      using mult_less_cancel_right_pos by blast
    then have "n + 1 \<le> n'" by simp
    then have "(of_int (n + 1) :: rat) \<le> of_int n'" by (simp only: of_int_le_iff)
    then have "(of_int n + 1) * (16 * s) \<le> of_int n' * (16 * s)"
      using spos by (intro mult_right_mono) simp_all
    then have "v + 16 * s \<le> 30 * h" unfolding n n' by (simp add: algebra_simps)
    with vge spos show False by linarith
  qed
  from toDouble_fixD [OF dh] obtain mh where mh: "h = of_int mh * s" unfolding s_def by blast
  have ah: "\<bar>h\<bar> = \<bar>of_int mh :: rat\<bar> * s"
    using spos by (subst mh) (simp add: abs_mult)
  from ehi have "\<bar>of_int mh :: rat\<bar> * s < 2 ^ 53 * s" unfolding pe1 ah .
  with spos have "\<bar>of_int mh :: rat\<bar> < 2 ^ 53"
    using mult_less_cancel_right_pos by blast
  then have "\<bar>mh\<bar> < 2 ^ 53"
    by (metis of_int_abs of_int_less_numeral_power_cancel_iff)
  then have "\<bar>mh - 1\<bar> \<le> 2 ^ 53" by linarith
  moreover have "h - s = of_int (mh - 1) * 2 powi (e - 52)"
    unfolding mh s [symmetric] by (simp add: algebra_simps)
  moreover have "- 1022 \<le> e" using e1 by simp
  ultimately have dp: "toDouble (h - s) = h - s" by (intro double_of_mantissa [of "h - s" "mh - 1" e])
  have near: "\<bar>toDouble (v / 30) - v / 30\<bar> \<le> \<bar>(h - s) - v / 30\<bar>"
    using dp by (rule toDouble_nearest)
  have le: "toDouble (v / 30) \<le> h"
    using dh lt by (intro toDouble_le) (simp_all add: h_def)
  from far have "v / 30 < h - s / 2" by simp
  with near le spos have "toDouble (v / 30) < h" by linarith
  then show ?thesis by (simp add: h_def)
qed


lemma Math_round_quotient:
  assumes b: "\<bar>v\<bar> \<le> 2 ^ 52"
  shows "- (2 ^ 48) - 1 < Math_round (toDouble (v / 30))"
    and "Math_round (toDouble (v / 30)) \<le> 2 ^ 48 + 1"
proof -
  define q' where "q' = toDouble (v / 30)"
  define k where "k = Math_round q'"
  have d48: "toDouble (2 ^ 48) = (2 ^ 48 :: rat)"
    using toDouble_int [of "2 ^ 48"] by simp
  have d48': "toDouble (- (2 ^ 48)) = (- (2 ^ 48) :: rat)"
    using toDouble_int [of "- (2 ^ 48)"] by simp
  from b have "v / 30 \<le> 2 ^ 48" "- (2 ^ 48) \<le> v / 30" by (simp_all add: abs_le_iff)
  then have q'b: "q' \<le> 2 ^ 48" "- (2 ^ 48) \<le> q'"
    unfolding q'_def using toDouble_le [OF d48] toDouble_ge [OF d48'] by blast+
  have kfl: "of_int k \<le> q' + 1 / 2" "q' + 1 / 2 < of_int k + 1"
    unfolding k_def Math_round_def by linarith+
  have klo: "- (2 ^ 48) - 1 < (of_int k :: rat)" and khi: "(of_int k :: rat) \<le> 2 ^ 48 + 1"
    using kfl q'b by linarith+
  have "(of_int k :: rat) \<le> of_int (2 ^ 48 + 1)" using khi by simp
  then have "k \<le> 2 ^ 48 + 1" by (simp only: of_int_le_iff)
  then show "Math_round (toDouble (v / 30)) \<le> 2 ^ 48 + 1" by (simp add: k_def q'_def)
  have "(of_int (- (2 ^ 48) - 1) :: rat) < of_int k" using klo by simp
  then have "- (2 ^ 48) - 1 < k" by (simp only: of_int_less_iff)
  then show "- (2 ^ 48) - 1 < Math_round (toDouble (v / 30))" by (simp add: k_def q'_def)
qed

lemma snapToGrid_exact:
  assumes b: "\<bar>v\<bar> \<le> 2 ^ 52"
  shows "snapToGrid v = of_int (Math_round (toDouble (v / 30))) * 30"
proof -
  define k where "k = Math_round (toDouble (v / 30))"
  have "\<bar>k * 30\<bar> < 2 ^ 53" using Math_round_quotient [OF b] by (simp add: k_def)
  then have "toDouble (of_int (k * 30)) = of_int (k * 30)" by (rule toDouble_int)
  then show ?thesis by (simp add: snapToGrid_def gridSize_def k_def)
qed


lemma on_grid_iff: "on_grid v \<longleftrightarrow> (\<exists>k :: int. v = of_int k * 30)"
proof
  assume "on_grid v"
  then have "v = of_int \<lfloor>v / 30\<rfloor> * 30" by (simp add: on_grid_def gridSize_def)
  then show "\<exists>k :: int. v = of_int k * 30" by blast
next
  assume "\<exists>k :: int. v = of_int k * 30"
  then obtain k :: int where "v = of_int k * 30" by blast
  then show "on_grid v" by (simp add: on_grid_def gridSize_def)
qed


section \<open>Snapping\<close>

text \<open>
  C2, as amended. For every raw coordinate that is a double of magnitude at most
  \<open>2 ^ 52\<close>, the snapped coordinate \<open>Math.round(v / 30) * 30\<close>, computed in double
  arithmetic, is an integer multiple of the grid unit 30, and lies at most 15, half the
  unit, from the raw coordinate.
\<close>

theorem snapToGrid_multiple_and_near:
  assumes v: "toDouble v = v" and b: "\<bar>v\<bar> \<le> 2 ^ 52"
  shows "(\<exists>k :: int. snapToGrid v = of_int k * 30) \<and> \<bar>snapToGrid v - v\<bar> \<le> 30 / 2"
proof -
  define q' where "q' = toDouble (v / 30)"
  define k where "k = Math_round q'"
  have khi': "k \<le> 2 ^ 48 + 1" and klo': "- (2 ^ 48) - 1 < k"
    using Math_round_quotient [OF b] by (simp_all add: k_def q'_def)
  have kfl: "of_int k \<le> q' + 1 / 2" "q' + 1 / 2 < of_int k + 1"
    unfolding k_def Math_round_def by linarith+
  have snap: "snapToGrid v = of_int k * 30"
    using snapToGrid_exact [OF b] by (simp add: k_def q'_def)
  have upper: "v / 30 < of_int k + 1 / 2"
  proof (rule ccontr)
    assume "\<not> v / 30 < of_int k + 1 / 2"
    then have ge: "of_int (2 * k + 1) / 2 \<le> v / 30" by (simp add: field_simps)
    have "\<bar>2 * k + 1\<bar> < 2 ^ 53" using khi' klo' by simp
    then have "toDouble (of_int (2 * k + 1) / 2) = of_int (2 * k + 1) / 2"
      by (rule toDouble_half_int)
    from toDouble_ge [OF this ge] have "of_int (2 * k + 1) / 2 \<le> q'" by (simp add: q'_def)
    with kfl show False by (simp add: field_simps)
  qed
  have lower: "of_int k - 1 / 2 \<le> v / 30"
  proof (rule ccontr)
    assume "\<not> of_int k - 1 / 2 \<le> v / 30"
    then have "v / 30 < of_int (k - 1) + 1 / 2" by simp
    moreover have "\<bar>15 * (2 * (k - 1) + 1)\<bar> < (2::int) ^ 53" using khi' klo' by simp
    ultimately have "toDouble (v / 30) < of_int (k - 1) + 1 / 2"
      using v by (intro below_half)
    with kfl show False by (simp add: q'_def)
  qed
  from upper lower have "\<bar>of_int k * 30 - v\<bar> \<le> 15" by (simp add: abs_le_iff)
  with snap show ?thesis by auto
qed

theorem snapToGrid_multiple_and_near_witness:
  "toDouble 85 = 85 \<and> \<bar>85 :: rat\<bar> \<le> 2 ^ 52 \<and> snapToGrid 85 = 90
   \<and> (\<exists>k :: int. (90 :: rat) = of_int k * 30) \<and> \<bar>90 - 85 :: rat\<bar> \<le> 30 / 2"
proof -
  have d: "toDouble 85 = 85" by code_simp
  have b: "\<bar>85 :: rat\<bar> \<le> 2 ^ 52" by simp
  have s: "snapToGrid 85 = 90" by code_simp
  from snapToGrid_multiple_and_near [OF d b] d b s show ?thesis by simp
qed

text \<open>
  The claim as stated fails: the double 100000000000000000 is snapped to
  100000000000000016, which is no multiple of 30 and lies 16 from the raw coordinate.
\<close>

theorem snapToGrid_counterexample:
  "toDouble 100000000000000000 = 100000000000000000
   \<and> snapToGrid 100000000000000000 = 100000000000000016
   \<and> \<not> on_grid (snapToGrid 100000000000000000)
   \<and> \<not> \<bar>snapToGrid 100000000000000000 - 100000000000000000\<bar> \<le> 30 / 2"
  by code_simp


section \<open>Placement\<close>

lemma drop_without_drag: "draggedElement st = None \<Longrightarrow> buildingGrid_drop e st = st"
  by (simp add: buildingGrid_drop_def)

lemma drop_unfold:
  assumes "draggedElement st = Some dragged"
  shows "buildingGrid_drop e st =
    (if within_buildable e dragged
     then (case (item_width dragged, item_height dragged) of
             (Some wv, Some hv) \<Rightarrow>
               placeBuilding (snappedX_of e) (snappedY_of e) wv hv (dataset_building dragged) st
           | _ \<Rightarrow> st)
     else showConstraintWarning st)\<lparr>draggedElement := None\<rparr>"
  using assms
  by (auto simp: buildingGrid_drop_def within_buildable_def item_width_def item_height_def
      snappedX_of_def snappedY_of_def rawX_of_def rawY_of_def buildableX_of_def
      buildableY_of_def Let_def
      split: option.splits)

text \<open>
  C1. A drop while an item is dragged appends a record to \<open>placedBuildings\<close> exactly
  when \<open>snappedX >= buildableX\<close>, \<open>snappedY >= buildableY\<close>,
  \<open>snappedX + width <= buildableX + buildableWidth\<close> and
  \<open>snappedY + height <= buildableY + buildableHeight\<close>, the width and height being
  those of the dragged item; the record then holds the snapped corner, that width and
  height and the item's type, and no warning is shown. When the condition fails, the
  warning is shown and \<open>placedBuildings\<close> is unchanged. A drop with no dragged item,
  which has no width or height to test, changes nothing.
\<close>

theorem drop_places_iff_within_buildable:
  "(case draggedElement st of
      None \<Rightarrow> buildingGrid_drop e st = st
    | Some dragged \<Rightarrow>
        (length (placedBuildings (buildingGrid_drop e st)) = Suc (length (placedBuildings st))
           \<longleftrightarrow> within_buildable e dragged)
        \<and> (within_buildable e dragged \<longrightarrow>
             (\<exists>wv hv. item_width dragged = Some wv \<and> item_height dragged = Some hv \<and>
                placedBuildings (buildingGrid_drop e st) =
                  placedBuildings st @
                    [\<lparr>element = fresh st, x = snappedX_of e, y = snappedY_of e,
                      width = wv, height = hv, type = dataset_building dragged\<rparr>]) \<and>
             warnings (buildingGrid_drop e st) = warnings st)
        \<and> (\<not> within_buildable e dragged \<longrightarrow>
             placedBuildings (buildingGrid_drop e st) = placedBuildings st \<and>
             warnings (buildingGrid_drop e st) =
               warnings st @ [''Cannot place building outside buildable area!'']))"
proof (cases "draggedElement st")
  case None
  then show ?thesis by (simp add: drop_without_drag)
next
  case (Some dragged)
  show ?thesis
  proof (cases "within_buildable e dragged")
    case True
    then obtain wv hv where "item_width dragged = Some wv" "item_height dragged = Some hv"
      by (auto simp: within_buildable_def split: option.splits)
    with True Some show ?thesis
      by (simp add: drop_unfold placeBuilding_def Let_def)
  next
    case False
    with Some show ?thesis
      by (simp add: drop_unfold showConstraintWarning_def)
  qed
qed

theorem drop_places_iff_within_buildable_witness:
  "draggedElement (dragstart single_family initial_builder) = Some single_family
   \<and> within_buildable example_drop single_family
   \<and> placedBuildings (buildingGrid_drop example_drop (dragstart single_family initial_builder))
       = [\<lparr>element = 0, x = 90, y = 90, width = 120, height = 80, type = ''single-family''\<rparr>]
   \<and> \<not> within_buildable outside_drop single_family
   \<and> placedBuildings (buildingGrid_drop outside_drop (dragstart single_family initial_builder))
       = []
   \<and> warnings (buildingGrid_drop outside_drop (dragstart single_family initial_builder))
       = [''Cannot place building outside buildable area!'']
   \<and> buildingGrid_drop example_drop initial_builder = initial_builder"
proof -
  let ?st = "dragstart single_family initial_builder"
  have d: "draggedElement ?st = Some single_family"
    by (simp add: dragstart_def)
  have inside: "within_buildable example_drop single_family"
    by code_simp
  have outside: "\<not> within_buildable outside_drop single_family"
    by code_simp
  have st: "placedBuildings ?st = []" "warnings ?st = []" "fresh ?st = 0"
    by (simp_all add: dragstart_def initial_builder_def)
  have vals: "item_width single_family = Some 120" "item_height single_family = Some 80"
    "snappedX_of example_drop = 90" "snappedY_of example_drop = 90"
    by code_simp+
  have ty: "dataset_building single_family = ''single-family''"
    by (simp add: single_family_def)
  from drop_places_iff_within_buildable [where st = "?st" and e = example_drop] inside
  have "placedBuildings (buildingGrid_drop example_drop ?st)
       = [\<lparr>element = 0, x = 90, y = 90, width = 120, height = 80, type = ''single-family''\<rparr>]"
    by (auto simp: d vals st ty)
  moreover from drop_places_iff_within_buildable [where st = "?st" and e = outside_drop] outside
  have "placedBuildings (buildingGrid_drop outside_drop ?st) = []
      \<and> warnings (buildingGrid_drop outside_drop ?st)
          = [''Cannot place building outside buildable area!'']"
    by (simp add: d st)
  moreover from drop_places_iff_within_buildable [where st = initial_builder and e = example_drop]
  have "buildingGrid_drop example_drop initial_builder = initial_builder"
    by (simp add: initial_builder_def)
  ultimately show ?thesis using d inside outside by simp
qed


section \<open>The placed buildings stay on the grid\<close>























lemma one_placed_reached: "run example_events = one_placed"
  by code_simp





section \<open>The development plan export\<close>

text \<open>
  C8, as amended. \<open>exportDevelopment\<close> builds the plan in memory, one entry for every
  placed building in order, with the same type, x, y, width and height; it logs the plan
  and the timestamp to the console and shows one alert, whose text gives the number of
  placed buildings. No file is produced, and \<open>placedBuildings\<close> is unchanged.
\<close>

theorem exportDevelopment_no_file:
  "downloads (exportDevelopment now st) = downloads st
   \<and> placedBuildings (exportDevelopment now st) = placedBuildings st
   \<and> (\<exists>plan.
        console (exportDevelopment now st) = console st @ [LogExportingDevelopment plan now]
        \<and> length plan = length (placedBuildings st)
        \<and> map (\<lambda>p. (plan_type p, fst (position p), snd (position p),
                      fst (dimensions p), snd (dimensions p))) plan
          = map (\<lambda>b. (type b, x b, y b, width b, height b)) (placedBuildings st))
   \<and> alerts (exportDevelopment now st) =
       alerts st @
         [''Development Plan exported successfully!'' @ [CHR 0x0A, CHR 0x0A] @
          ''Buildings placed: '' @ showNat (length (placedBuildings st)) @
          [CHR 0x0A, CHR 0x0A] @
          ''This would normally send the plan to your Sgiach platform for cost analysis and feasibility assessment.'']"
  by (simp add: exportDevelopment_def Let_def comp_def)

text \<open>
  The claim as stated fails: with one building placed, the export hands no file to the
  browser.
\<close>

theorem exportDevelopment_file_counterexample:
  "length (placedBuildings one_placed) = 1
   \<and> downloads (exportDevelopment [] one_placed) = []
   \<and> alerts (exportDevelopment [] one_placed) =
       [''Development Plan exported successfully!'' @ [CHR 0x0A, CHR 0x0A] @
        ''Buildings placed: 1'' @ [CHR 0x0A, CHR 0x0A] @
        ''This would normally send the plan to your Sgiach platform for cost analysis and feasibility assessment.'']"
  by code_simp


section \<open>The analysis request\<close>

text \<open>
  C3. \<open>performAnalysis\<close> never rejects: for every outcome of the request it returns a
  result. When the request fails in the network, and equally when the status is not 2xx,
  the result is that of \<open>getTestData\<close>.
\<close>

theorem performAnalysis_never_throws:
  "(\<exists>results. fst (performAnalysis now formData response st) = Inr results)
   \<and> fst (performAnalysis now formData NetworkError st) = Inr (getTestData now formData)
   \<and> (\<not> ok status \<longrightarrow>
        fst (performAnalysis now formData (Response status body) st)
          = Inr (getTestData now formData))"
  by (auto simp: performAnalysis_def performAnalysis_try_def Let_def
      split: fetch_result.splits option.splits sum.splits)

theorem performAnalysis_never_throws_witness:
  "\<not> ok 500
   \<and> fst (performAnalysis [] () (Response 500 None) initial_app) = Inr (getTestData [] ())
   \<and> fst (performAnalysis [] () NetworkError initial_app) = Inr (getTestData [] ())"
  using performAnalysis_never_throws [of "[]" "()" NetworkError initial_app 500 None]
  by (simp add: ok_def)


section \<open>The connectivity check\<close>

lemma health_ok:
  assumes "\<not> health_fails env"
  shows "checkAPIConnection_health env st =
     (None,
      st\<lparr>requests := requests st @ [API_BASE_URL @ ''/health''],
         apiStatus_className := ''api-status connected'',
         statusIndicator_text := bullet,
         statusText_text := ''API Connected - '' @ health_message env\<rparr>)"
  using assms
  by (auto simp: checkAPIConnection_health_def health_fails_def health_message_def Let_def
      split: fetch_result.splits option.splits health_json.splits)

lemma health_failed:
  assumes "health_fails env"
  shows "\<exists>err st1. checkAPIConnection_health env st = (Some err, st1)
     \<and> requests st1 = requests st @ [API_BASE_URL @ ''/health'']
     \<and> toasts st1 = toasts st"
  using assms
  by (auto simp: checkAPIConnection_health_def health_fails_def Let_def
      split: fetch_result.splits option.splits health_json.splits)

lemma root_ok:
  assumes "\<not> root_fails env"
  shows "checkAPIConnection_root env st =
     (None,
      st\<lparr>requests := requests st @ [API_BASE_URL @ ''/''],
         apiStatus_className := ''api-status connected'',
         statusIndicator_text := bullet,
         statusText_text := ''API Connected''\<rparr>)"
  using assms
  by (auto simp: checkAPIConnection_root_def root_fails_def Let_def
      split: fetch_result.splits)

lemma root_failed:
  assumes "root_fails env"
  shows "\<exists>err. checkAPIConnection_root env st =
     (Some err, st\<lparr>requests := requests st @ [API_BASE_URL @ ''/'']\<rparr>)"
  using assms
  by (auto simp: checkAPIConnection_root_def root_fails_def Let_def
      split: fetch_result.splits)

lemma check_health_ok:
  assumes "\<not> health_fails env"
  shows "checkAPIConnection env st =
      st\<lparr>requests := requests st @ [API_BASE_URL @ ''/health''],
         apiStatus_className := ''api-status connected'',
         statusIndicator_text := bullet,
         statusText_text := ''API Connected - '' @ health_message env\<rparr>"
  by (simp add: checkAPIConnection_def health_ok [OF assms])

lemma check_root_ok:
  assumes "health_fails env" "\<not> root_fails env"
  shows "requests (checkAPIConnection env st) =
       requests st @ [API_BASE_URL @ ''/health'', API_BASE_URL @ ''/'']
     \<and> statusText_text (checkAPIConnection env st) = ''API Connected''
     \<and> apiStatus_className (checkAPIConnection env st) = ''api-status connected''
     \<and> toasts (checkAPIConnection env st) = toasts st"
proof -
  from health_failed [OF assms(1), of st] obtain err st1
    where h: "checkAPIConnection_health env st = (Some err, st1)"
      and r: "requests st1 = requests st @ [API_BASE_URL @ ''/health'']"
      and t: "toasts st1 = toasts st"
    by blast
  show ?thesis
    by (simp add: checkAPIConnection_def h root_ok [OF assms(2)] r t)
qed

lemma check_both_failed:
  assumes "health_fails env" "root_fails env"
  shows "requests (checkAPIConnection env st) =
       requests st @ [API_BASE_URL @ ''/health'', API_BASE_URL @ ''/'']
     \<and> statusText_text (checkAPIConnection env st) = ''API Disconnected - Using Test Data''
     \<and> apiStatus_className (checkAPIConnection env st) = ''api-status disconnected''
     \<and> toasts (checkAPIConnection env st) =
         toasts st @
           [(''Cannot connect to Real Estate Analysis API. Using test data for demonstration.'',
             ''info'')]"
proof -
  from health_failed [OF assms(1), of st] obtain err st1
    where h: "checkAPIConnection_health env st = (Some err, st1)"
      and r: "requests st1 = requests st @ [API_BASE_URL @ ''/health'']"
      and t: "toasts st1 = toasts st"
    by blast
  from root_failed [OF assms(2), of st1] obtain err'
    where f: "checkAPIConnection_root env st1 =
      (Some err', st1\<lparr>requests := requests st1 @ [API_BASE_URL @ ''/'']\<rparr>)"
    by blast
  show ?thesis
    by (simp add: checkAPIConnection_def h f r t showMessage_def)
qed

text \<open>
  C4. \<open>checkAPIConnection\<close> requests \<open>/health\<close> first, and requests \<open>/\<close> after it
  exactly when the health probe has failed. When \<open>/health\<close> answers 200 with the
  message \<open>Ready\<close>, the status text is \<open>API Connected - Ready\<close>. When both probes
  fail, the status text is \<open>API Disconnected - Using Test Data\<close> and an informational
  toast is shown. The outcome follows the answers: a health probe that succeeds gives
  \<open>API Connected - \<close> and its message, and no toast; a health probe that fails
  followed by a root probe that succeeds gives \<open>API Connected\<close>, and no toast; and the
  page concludes that it is disconnected exactly when both probes have failed.
\<close>

theorem checkAPIConnection_probes:
  "requests (checkAPIConnection env st) =
     requests st @
       (if health_fails env then [API_BASE_URL @ ''/health'', API_BASE_URL @ ''/'']
        else [API_BASE_URL @ ''/health''])
   \<and> (health env = Response 200 (Some (JValue (Some ''Ready''))) \<longrightarrow>
        statusText_text (checkAPIConnection env st) = ''API Connected - Ready'')
   \<and> (health_fails env \<and> root_fails env \<longrightarrow>
        statusText_text (checkAPIConnection env st) = ''API Disconnected - Using Test Data''
        \<and> toasts (checkAPIConnection env st) =
            toasts st @
              [(''Cannot connect to Real Estate Analysis API. Using test data for demonstration.'',
                ''info'')])
   \<and> (\<not> health_fails env \<longrightarrow>
        statusText_text (checkAPIConnection env st) = ''API Connected - '' @ health_message env
        \<and> apiStatus_className (checkAPIConnection env st) = ''api-status connected''
        \<and> toasts (checkAPIConnection env st) = toasts st)
   \<and> (health_fails env \<and> \<not> root_fails env \<longrightarrow>
        statusText_text (checkAPIConnection env st) = ''API Connected''
        \<and> apiStatus_className (checkAPIConnection env st) = ''api-status connected''
        \<and> toasts (checkAPIConnection env st) = toasts st)
   \<and> (statusText_text (checkAPIConnection env st) = ''API Disconnected - Using Test Data''
        \<longleftrightarrow> health_fails env \<and> root_fails env)
   \<and> (apiStatus_className (checkAPIConnection env st) = ''api-status disconnected''
        \<longleftrightarrow> health_fails env \<and> root_fails env)"
proof (cases "health_fails env")
  case False
  then have "health env \<noteq> Response 200 (Some (JValue (Some ''Ready'')))
      \<or> health_message env = ''Ready''"
    by (auto simp: health_message_def)
  with False show ?thesis
    by (auto simp: check_health_ok)
next
  case True
  then have nr: "health env \<noteq> Response 200 (Some (JValue (Some ''Ready'')))"
    by (auto simp: health_fails_def ok_def)
  show ?thesis
  proof (cases "root_fails env")
    case False
    with True nr check_root_ok [OF True False, of st] show ?thesis by simp
  next
    case rf: True
    with True nr check_both_failed [OF True rf, of st] show ?thesis by simp
  qed
qed

theorem checkAPIConnection_probes_witness:
  "health api_ready = Response 200 (Some (JValue (Some ''Ready'')))
   \<and> \<not> health_fails api_ready
   \<and> requests (checkAPIConnection api_ready initial_app) = [API_BASE_URL @ ''/health'']
   \<and> statusText_text (checkAPIConnection api_ready initial_app) = ''API Connected - Ready''
   \<and> health_fails api_down \<and> root_fails api_down
   \<and> requests (checkAPIConnection api_down initial_app)
       = [API_BASE_URL @ ''/health'', API_BASE_URL @ ''/'']
   \<and> statusText_text (checkAPIConnection api_down initial_app)
       = ''API Disconnected - Using Test Data''
   \<and> toasts (checkAPIConnection api_down initial_app) =
       [(''Cannot connect to Real Estate Analysis API. Using test data for demonstration.'',
         ''info'')]
   \<and> health_fails api_root_only \<and> \<not> root_fails api_root_only
   \<and> requests (checkAPIConnection api_root_only initial_app)
       = [API_BASE_URL @ ''/health'', API_BASE_URL @ ''/'']
   \<and> statusText_text (checkAPIConnection api_root_only initial_app) = ''API Connected''
   \<and> toasts (checkAPIConnection api_root_only initial_app) = []"
proof -
  have ready: "health api_ready = Response 200 (Some (JValue (Some ''Ready'')))"
    "\<not> health_fails api_ready"
    by (simp_all add: api_ready_def health_fails_def ok_def)
  have down: "health_fails api_down" "root_fails api_down"
    by (simp_all add: api_down_def health_fails_def root_fails_def ok_def)
  have only: "health_fails api_root_only" "\<not> root_fails api_root_only"
    by (simp_all add: api_root_only_def health_fails_def root_fails_def ok_def)
  have init: "requests initial_app = []" "toasts initial_app = []"
    by (simp_all add: initial_app_def)
  from checkAPIConnection_probes [of api_ready initial_app]
    checkAPIConnection_probes [of api_down initial_app]
    checkAPIConnection_probes [of api_root_only initial_app] ready down only init
  show ?thesis by simp
qed


section \<open>The property cards\<close>

lemma js_join_concat: "js_join [] ls = concat ls"
  by (induction "[] :: string" ls rule: js_join.induct) simp_all

lemma scenario_template:
  "template
     [[],
      sp 28 @ div_open ''scenario-card'',
      sp 32 @ div_open ''scenario-type'' @ scenario_type sc @ ''</div>'',
      sp 32 @ div_open ''scenario-description'' @ description sc @ ''</div>'',
      sp 32 @ div_open ''scenario-metrics'',
      sp 36 @ div_open ''metric'',
      sp 40 @ div_open ''metric-value'' @
        str f (roi_percentage (financial_analysis sc)) @ ''%</div>'',
      sp 40 @ div_open ''metric-label'' @ ''ROI</div>'',
      sp 36 @ ''</div>'',
      sp 36 @ div_open ''metric'',
      sp 40 @ div_open ''metric-value'' @ str f (timeline_months sc) @ ''mo</div>'',
      sp 40 @ div_open ''metric-label'' @ ''Timeline</div>'',
      sp 36 @ ''</div>'',
      sp 36 @ div_open ''metric'',
      sp 40 @ div_open ''metric-value'' @ ''$'' @
        toFixed f 1 (toDouble (total_development_cost (financial_analysis sc) / 1000000)) @
        ''M</div>'',
      sp 40 @ div_open ''metric-label'' @ ''Investment</div>'',
      sp 36 @ ''</div>'',
      sp 36 @ div_open ''metric'',
      sp 40 @ div_open ''metric-value'' @ ''$'' @
        toFixed f 0 (toDouble (net_profit (financial_analysis sc) / 1000)) @ ''K</div>'',
      sp 40 @ div_open ''metric-label'' @ ''Net Profit</div>'',
      sp 36 @ ''</div>'',
      sp 32 @ ''</div>'',
      sp 28 @ ''</div>'',
      sp 24]
   = scenario_block f sc"
  by (simp add: template_def scenario_block_def metric_markup_def)

lemma card_markup:
  "innerHTML (createPropertyCard f opp rank) =
     card_header f (property opp) rank @ concat (map (scenario_block f) (scenarios opp)) @
     card_footer"
  apply (simp only: createPropertyCard_def Let_def scenario_template js_join_concat
      card.simps)
  apply (simp add: template_def card_header_def card_footer_def)
  done

lemma appendCards_eq:
  "appendCards f i opps grid =
     grid @ map (\<lambda>(j, opp). createPropertyCard f opp (Suc j)) (enumerate i opps)"
  by (induction opps arbitrary: i grid) simp_all

text \<open>
  C5, as amended. The markup assigned to the card of an opportunity is a header that
  shows the rank and the address, followed by one scenario card for every scenario of the
  opportunity, in the order of the scenarios, each with the ROI, the timeline, the
  investment in millions and the net profit in thousands of its scenario, followed by the
  closing tags; the values are interpolated without escaping. \<open>displayResults\<close>
  renders one card for each opportunity, in order, with its 1-based rank.
\<close>

theorem card_shows_every_scenario:
  "innerHTML (createPropertyCard f opp rank) =
     card_header f (property opp) rank @ concat (map (scenario_block f) (scenarios opp)) @
     card_footer
   \<and> className (createPropertyCard f opp rank) = ''property-card''
   \<and> propertiesGrid (displayResults f results st) =
       map (\<lambda>(i, opp). createPropertyCard f opp (Suc i)) (enumerate 0 (opportunities results))"
proof (intro conjI)
  show "innerHTML (createPropertyCard f opp rank) =
     card_header f (property opp) rank @ concat (map (scenario_block f) (scenarios opp)) @
     card_footer"
    by (rule card_markup)
next
  show "className (createPropertyCard f opp rank) = ''property-card''"
    by (simp add: createPropertyCard_def Let_def)
next
  show "propertiesGrid (displayResults f results st) =
       map (\<lambda>(i, opp). createPropertyCard f opp (Suc i)) (enumerate 0 (opportunities results))"
    by (simp add: displayResults_def appendCards_eq)
qed

lemma sublist_in_context: "sublist a c \<Longrightarrow> sublist a (p @ c @ s)"
  unfolding sublist_def by (metis append_assoc)

lemma metric_markup_value:
  "sublist (div_open ''metric-value'' @ v @ ''</div>'') (metric_markup v label)"
proof -
  have "metric_markup v label =
      (sp 36 @ div_open ''metric'' @ [CHR 0x0A] @ sp 40) @
      (div_open ''metric-value'' @ v @ ''</div>'') @
      ([CHR 0x0A] @ sp 40 @ div_open ''metric-label'' @ label @ ''</div>'' @ [CHR 0x0A] @
       sp 36 @ ''</div>'' @ [CHR 0x0A])"
    by (simp add: metric_markup_def)
  then show ?thesis
    by (simp only: sublist_appendI)
qed

lemma scenario_block_roi:
  "sublist
     (div_open ''metric-value'' @ (str f (roi_percentage (financial_analysis sc)) @ ''%'') @
      ''</div>'')
     (scenario_block f sc)"
proof -
  have "scenario_block f sc =
     ([CHR 0x0A] @
      sp 28 @ div_open ''scenario-card'' @ [CHR 0x0A] @
      sp 32 @ div_open ''scenario-type'' @ scenario_type sc @ ''</div>'' @ [CHR 0x0A] @
      sp 32 @ div_open ''scenario-description'' @ description sc @ ''</div>'' @ [CHR 0x0A] @
      sp 32 @ div_open ''scenario-metrics'' @ [CHR 0x0A]) @
     metric_markup (str f (roi_percentage (financial_analysis sc)) @ ''%'') ''ROI'' @
     (metric_markup (str f (timeline_months sc) @ ''mo'') ''Timeline'' @
      metric_markup
        (''$'' @
         toFixed f 1 (toDouble (total_development_cost (financial_analysis sc) / 1000000)) @
         ''M'')
        ''Investment'' @
      metric_markup
        (''$'' @ toFixed f 0 (toDouble (net_profit (financial_analysis sc) / 1000)) @ ''K'')
        ''Net Profit'' @
      sp 32 @ ''</div>'' @ [CHR 0x0A] @
      sp 28 @ ''</div>'' @ [CHR 0x0A] @
      sp 24)"
    by (simp add: scenario_block_def)
  then show ?thesis
    by (simp only: sublist_in_context [OF metric_markup_value])
qed

lemma two_scenarios_list:
  "\<exists>first second. scenarios two_scenarios = [first, second]
     \<and> roi_percentage (financial_analysis second) = toDouble (289 / 10)"
  by (simp add: two_scenarios_def getTestData_def)

lemma str_second_roi: "str example_format (toDouble (289 / 10)) = ''28.9''"
  by code_simp

lemma scenario_block_nonempty: "scenario_block f sc \<noteq> []"
  by (simp add: scenario_block_def)

text \<open>
  The claim as stated fails: the card of an opportunity with two scenarios is not the
  card of its first scenario alone, and its markup holds the ROI of the second scenario.
\<close>

theorem card_first_scenario_only_counterexample:
  "innerHTML (createPropertyCard example_format two_scenarios 1)
     \<noteq> card_header example_format (property two_scenarios) 1 @
        scenario_block example_format (hd (scenarios two_scenarios)) @ card_footer
   \<and> sublist (div_open ''metric-value'' @ ''28.9%</div>'')
        (innerHTML (createPropertyCard example_format two_scenarios 1))"
proof
  obtain first second where scs: "scenarios two_scenarios = [first, second]"
    and roi: "roi_percentage (financial_analysis second) = toDouble (289 / 10)"
    using two_scenarios_list by blast
  have markup: "innerHTML (createPropertyCard example_format two_scenarios 1) =
      (card_header example_format (property two_scenarios) 1 @
       scenario_block example_format first) @
      scenario_block example_format second @ card_footer"
    by (simp add: card_markup scs)
  show "innerHTML (createPropertyCard example_format two_scenarios 1)
     \<noteq> card_header example_format (property two_scenarios) 1 @
        scenario_block example_format (hd (scenarios two_scenarios)) @ card_footer"
    unfolding markup using scenario_block_nonempty [of example_format second]
    by (simp add: scs)
  have "sublist (div_open ''metric-value'' @ ''28.9%</div>'')
     (scenario_block example_format second)"
    using scenario_block_roi [of example_format second]
    by (simp add: roi str_second_roi)
  then show "sublist (div_open ''metric-value'' @ ''28.9%</div>'')
        (innerHTML (createPropertyCard example_format two_scenarios 1))"
    unfolding markup by (rule sublist_in_context)
qed


section \<open>The CSV export\<close>

lemma appendRows_eq:
  "\<forall>opp \<in> set opps. scenarios opp \<noteq> [] \<Longrightarrow>
   appendRows f i opps csv =
     Inr (csv @ concat (map (\<lambda>(j, opp). csv_row f (Suc j) (property opp) (hd (scenarios opp)))
                         (enumerate i opps)))"
proof (induction opps arbitrary: i csv)
  case Nil
  then show ?case by simp
next
  case (Cons opp opps)
  from Cons.prems obtain sc scs where sc: "scenarios opp = sc # scs"
    by (cases "scenarios opp") auto
  from Cons.prems have rest: "\<forall>opp \<in> set opps. scenarios opp \<noteq> []" by simp
  show ?case
    by (simp add: sc Cons.IH [OF rest] csv_row_def Let_def)
qed

lemma exportCSV_without_scenario:
  "currentAnalysisData st = Some data \<Longrightarrow> opportunities data = opp # opps \<Longrightarrow>
   scenarios opp = [] \<Longrightarrow> exportCSV f st = Inl (TypeError ''financial_analysis'')"
  by (simp add: exportCSV_def)

text \<open>
  C7, as amended. With an analysis result held whose \<open>n\<close> opportunities each have at
  least one scenario, \<open>exportCSV\<close> downloads the file \<open>sgiach-analysis.csv\<close> whose text
  is the fixed header row followed by exactly \<open>n\<close> data rows, the row of index \<open>i\<close>
  being that of the opportunity of index \<open>i\<close>: its rank \<open>i + 1\<close>, its address between
  double quotes and otherwise as it is, and the price, zoning and fields of its first
  scenario only.
\<close>

theorem exportCSV_rows:
  assumes "currentAnalysisData st = Some data"
    and "\<forall>opp \<in> set (opportunities data). scenarios opp \<noteq> []"
  shows "\<exists>rows. length rows = length (opportunities data)
     \<and> (\<forall>i < length rows. rows ! i =
           csv_row f (Suc i) (property (opportunities data ! i))
             (hd (scenarios (opportunities data ! i))))
     \<and> exportCSV f st =
         Inr (showMessage ''Analysis exported to CSV successfully!'' ''success''
                (st\<lparr>files := files st @
                   [(''sgiach-analysis.csv'', ''text/csv'', csv_header @ concat rows)]\<rparr>))"
proof -
  let ?rows = "map (\<lambda>(j, opp). csv_row f (Suc j) (property opp) (hd (scenarios opp)))
                 (enumerate 0 (opportunities data))"
  have "length ?rows = length (opportunities data)" by simp
  moreover have "\<forall>i < length ?rows. ?rows ! i =
           csv_row f (Suc i) (property (opportunities data ! i))
             (hd (scenarios (opportunities data ! i)))"
    by (simp add: nth_enumerate_eq)
  moreover have "exportCSV f st =
         Inr (showMessage ''Analysis exported to CSV successfully!'' ''success''
                (st\<lparr>files := files st @
                   [(''sgiach-analysis.csv'', ''text/csv'', csv_header @ concat ?rows)]\<rparr>))"
    using assms by (simp add: exportCSV_def appendRows_eq downloadFile_def)
  ultimately show ?thesis by blast
qed

text \<open>
  The two opportunities of the test data, with ROI 33.3 and 28.9: the file is the header
  row and exactly two data rows.
\<close>

theorem exportCSV_rows_witness:
  "currentAnalysisData displayed_app = Some (getTestData [] ())
   \<and> map (\<lambda>opp. length (scenarios opp)) (opportunities (getTestData [] ())) = [1, 1]
   \<and> (\<exists>rows. length rows = 2 \<and>
        map_sum id files (exportCSV example_format displayed_app) =
          Inr [(''sgiach-analysis.csv'', ''text/csv'', csv_header @ concat rows)])
   \<and> map_sum id files (exportCSV example_format displayed_app) =
       Inr [(''sgiach-analysis.csv'', ''text/csv'',
             ''Rank,Address,Price,Zoning,ROI,Timeline,Investment,Profit'' @ [CHR 0x0A] @
             ''1,'' @ [CHR 0x22] @ ''10542 82 Avenue NW, Edmonton, AB'' @ [CHR 0x22] @
             '',850000,RA7,33.3,18,2400000,800000'' @ [CHR 0x0A] @
             ''2,'' @ [CHR 0x22] @ ''8720 118 Avenue NW, Edmonton, AB'' @ [CHR 0x22] @
             '',1200000,CB1,28.9,24,3800000,1100000'' @ [CHR 0x0A])]"
proof -
  have held: "currentAnalysisData displayed_app = Some (getTestData [] ())"
    by (simp add: displayed_app_def displayResults_def)
  have scs: "\<forall>opp \<in> set (opportunities (getTestData [] ())). scenarios opp \<noteq> []"
    by (simp add: getTestData_def)
  have n: "length (opportunities (getTestData [] ())) = 2"
    by (simp add: getTestData_def)
  have ones: "map (\<lambda>opp. length (scenarios opp)) (opportunities (getTestData [] ())) = [1, 1]"
    by (simp add: getTestData_def)
  have none: "files displayed_app = []"
    by (simp add: displayed_app_def displayResults_def initial_app_def)
  from exportCSV_rows [OF held scs, of example_format]
  obtain rows where "length rows = 2"
    and "exportCSV example_format displayed_app =
         Inr (showMessage ''Analysis exported to CSV successfully!'' ''success''
                (displayed_app\<lparr>files := files displayed_app @
                   [(''sgiach-analysis.csv'', ''text/csv'', csv_header @ concat rows)]\<rparr>))"
    unfolding n by blast
  then have "\<exists>rows. length rows = 2 \<and>
        map_sum id files (exportCSV example_format displayed_app) =
          Inr [(''sgiach-analysis.csv'', ''text/csv'', csv_header @ concat rows)]"
    by (auto simp: showMessage_def none)
  moreover have "map_sum id files (exportCSV example_format displayed_app) =
       Inr [(''sgiach-analysis.csv'', ''text/csv'',
             ''Rank,Address,Price,Zoning,ROI,Timeline,Investment,Profit'' @ [CHR 0x0A] @
             ''1,'' @ [CHR 0x22] @ ''10542 82 Avenue NW, Edmonton, AB'' @ [CHR 0x22] @
             '',850000,RA7,33.3,18,2400000,800000'' @ [CHR 0x0A] @
             ''2,'' @ [CHR 0x22] @ ''8720 118 Avenue NW, Edmonton, AB'' @ [CHR 0x22] @
             '',1200000,CB1,28.9,24,3800000,1100000'' @ [CHR 0x0A])]"
    by code_simp
  ultimately show ?thesis using held ones by blast
qed

text \<open>
  The claim as stated fails: a result whose one opportunity has no scenario is returned by
  \<open>performAnalysis\<close> and held after \<open>displayResults\<close>, and \<open>exportCSV\<close> then
  throws and hands no file to the browser.
\<close>

theorem exportCSV_counterexample:
  "fst (performAnalysis [] () (Response 200 (Some no_scenario_data)) initial_app)
     = Inr no_scenario_data
   \<and> currentAnalysisData no_scenario_app = Some no_scenario_data
   \<and> length (opportunities no_scenario_data) = 1
   \<and> exportCSV example_format no_scenario_app = Inl (TypeError ''financial_analysis'')"
proof -
  have o: "opportunities no_scenario_data =
      [(hd (opportunities (getTestData [] ())))\<lparr>scenarios := []\<rparr>]"
    by (simp add: no_scenario_data_def getTestData_def)
  have h: "currentAnalysisData no_scenario_app = Some no_scenario_data"
    by (simp add: no_scenario_app_def displayResults_def)
  have "exportCSV example_format no_scenario_app = Inl (TypeError ''financial_analysis'')"
    by (simp add: exportCSV_def h o)
  moreover have "fst (performAnalysis [] () (Response 200 (Some no_scenario_data)) initial_app)
     = Inr no_scenario_data"
    by (simp add: performAnalysis_def performAnalysis_try_def ok_def Let_def)
  ultimately show ?thesis using h o by simp
qed


section \<open>Exports without data\<close>

text \<open>
  C10. When no analysis data is held, \<open>exportCSV\<close> returns with the state of the page
  as it was: no file, no toast, no change. No data is held initially, nor after
  \<open>newSearch\<close>. Likewise \<open>exportAnalysisReport\<close> returns with the state as it was,
  no report downloaded, when no current property is held.
\<close>

theorem export_without_data:
  "(currentAnalysisData st = None \<longrightarrow> exportCSV f st = Inr st)
   \<and> currentAnalysisData initial_app = None
   \<and> currentAnalysisData (newSearch st) = None
   \<and> exportCSV f (newSearch st) = Inr (newSearch st)
   \<and> (currentProperty m = None \<longrightarrow> exportAnalysisReport nowISO nowMs m = Inr m)"
  by (simp add: exportCSV_def newSearch_def initial_app_def exportAnalysisReport_def)

theorem export_without_data_witness:
  "currentAnalysisData initial_app = None
   \<and> exportCSV example_format initial_app = Inr initial_app
   \<and> currentProperty initial_mapping = None
   \<and> exportAnalysisReport [] 0 initial_mapping = Inr initial_mapping"
proof -
  have "currentAnalysisData initial_app = None" "currentProperty initial_mapping = None"
    by (simp_all add: initial_app_def initial_mapping_def)
  with export_without_data [of initial_app example_format initial_mapping "[]" 0]
  show ?thesis by simp
qed


section \<open>The validation request\<close>

text \<open>
  C6, as amended. When the validation request fails (the fetch fails, the body is not
  JSON, or the body has no \<open>validation_request\<close>), and also when no property is
  loaded, no alert is shown: the failure is passed to \<open>console.error\<close> only. An alert
  is shown exactly when, with a property loaded, the call succeeds; it names the request
  id, and nothing is passed to \<open>console.error\<close>.
\<close>

theorem validation_failure_only_logged:
  "(validation_fails response \<or> currentProperty st = None \<longrightarrow>
      shown_alerts (requestProfessionalValidation response st) = shown_alerts st
      \<and> (\<exists>err. console_errors (requestProfessionalValidation response st) =
                  console_errors st @ [(''Validation request failed:'', err)]))
   \<and> (currentProperty st \<noteq> None \<and> response = Response status (Some (ValidationRequest rid)) \<longrightarrow>
        shown_alerts (requestProfessionalValidation response st) =
          shown_alerts st @
            [''Professional validation requested! Request ID: '' @
             (case rid of None \<Rightarrow> ''undefined'' | Some r \<Rightarrow> r)]
        \<and> console_errors (requestProfessionalValidation response st) = console_errors st)
   \<and> (shown_alerts (requestProfessionalValidation response st) \<noteq> shown_alerts st
        \<longleftrightarrow> currentProperty st \<noteq> None \<and> \<not> validation_fails response)"
  by (auto simp: requestProfessionalValidation_def requestProfessionalValidation_try_def
      validation_fails_def Let_def
      split: option.splits fetch_result.splits validation_json.splits)

theorem validation_failure_only_logged_witness:
  "validation_fails (Response 200 None)
   \<and> shown_alerts (requestProfessionalValidation (Response 200 None) loaded_mapping) = []
   \<and> (\<exists>err. console_errors (requestProfessionalValidation (Response 200 None) loaded_mapping)
               = [(''Validation request failed:'', err)])
   \<and> currentProperty loaded_mapping \<noteq> None
   \<and> shown_alerts
        (requestProfessionalValidation
           (Response 200 (Some (ValidationRequest (Some ''VR-1'')))) loaded_mapping)
       = [''Professional validation requested! Request ID: VR-1'']
   \<and> console_errors
        (requestProfessionalValidation
           (Response 200 (Some (ValidationRequest (Some ''VR-1'')))) loaded_mapping)
       = []"
proof -
  have f: "validation_fails (Response 200 None)"
    by (simp add: validation_fails_def)
  have l: "currentProperty loaded_mapping \<noteq> None"
    by (simp add: loaded_mapping_def)
  have e: "shown_alerts loaded_mapping = []" "console_errors loaded_mapping = []"
    by (simp_all add: loaded_mapping_def initial_mapping_def)
  from validation_failure_only_logged [of "Response 200 None" loaded_mapping]
    validation_failure_only_logged
      [of "Response 200 (Some (ValidationRequest (Some ''VR-1'')))" loaded_mapping
          200 "Some ''VR-1''"]
    f l e
  show ?thesis by simp
qed

text \<open>
  The claim as stated fails: after a network failure, with a property loaded, no alert has
  been shown and the failure is in the console.
\<close>

theorem validation_alert_counterexample:
  "validation_fails NetworkError
   \<and> shown_alerts (requestProfessionalValidation NetworkError loaded_mapping) = []
   \<and> console_errors (requestProfessionalValidation NetworkError loaded_mapping)
       = [(''Validation request failed:'', FetchFailed)]"
  by code_simp


end
